theory Spec2Isabelle
  imports Complex_Main "HOL-Library.Char_ord" "HOL-Library.List_Lexorder"
begin

section \<open>The Python objects the engine handles\<close>

text \<open>
  The Meta package is Python: schema expressions, data and wrapped nodes are all run-time
  objects, and the code inspects them with \<^verbatim>\<open>isinstance\<close>, \<^verbatim>\<open>get_origin\<close> and
  \<^verbatim>\<open>get_args\<close>. The embedding therefore has one type \<open>pyobj\<close> of objects:
  \<^item> plain data: \<^verbatim>\<open>None\<close>, \<^verbatim>\<open>Ellipsis\<close>, booleans, integers, floats (by their
    rational value), ASCII strings, lists, tuples, sets and dicts. A set is the list of
    its members in iteration order, taken to be insertion order; a dict is the list of
    its items in insertion order;
  \<^item> schema expressions: \<^verbatim>\<open>typing.Any\<close>, the builtin classes, and the subscripted
    generics of \<^verbatim>\<open>typing\<close> (\<^verbatim>\<open>Union[..]\<close>, \<^verbatim>\<open>X | Y\<close>, \<^verbatim>\<open>Dict[..]\<close>,
    \<^verbatim>\<open>List[..]\<close>, \<^verbatim>\<open>Set[..]\<close>, \<^verbatim>\<open>Tuple[..]\<close>) with their \<^verbatim>\<open>get_args\<close>;
  \<^item> \<^verbatim>\<open>Schema\<close> objects with their attributes \<^verbatim>\<open>schema\<close>, \<^verbatim>\<open>_validate\<close> and
    \<^verbatim>\<open>validator_cls\<close>;
  \<^item> nodes: an instance of one of the Meta classes, given by its class, the value of the
    builtin it subclasses, and its \<^verbatim>\<open>schema\<close> attribute.
  The reflection follows Python 3.10, the first version with \<^verbatim>\<open>types.UnionType\<close>,
  where \<^verbatim>\<open>typing.Any\<close> is not a class. Exceptions are values of \<open>pyerr\<close>; the
  constructor \<open>Unmodelled\<close> marks a run that leaves the embedded fragment (parsing a
  float, the \<^verbatim>\<open>repr\<close> of an arbitrary object) and is caught by no handler.
\<close>

datatype tyname =
  T_bool | T_int | T_float | T_str | T_NoneType | T_dict | T_list | T_set | T_tuple

datatype origin = O_Union | O_UnionType | O_dict | O_list | O_set | O_tuple

datatype metacls =
  MetaBool | MetaInt | MetaFloat | MetaStr | MetaNone | MetaDict | MetaList | MetaSet | MetaTuple

datatype vcls = SchemaValidator_cls | NoOpValidator_cls

datatype pyobj =
    PNone
  | PEllipsis
  | PBool bool
  | PInt int
  | PFloat rat
  | PStr string
  | PList "pyobj list"
  | PTuple "pyobj list"
  | PSet "pyobj list"
  | PDict "(pyobj \<times> pyobj) list"
  | PAny
  | PType tyname
  | PGeneric origin "pyobj list"
  | PSchema pyobj bool vcls
  | PMeta metacls pyobj pyobj

datatype tetag =
    Mismatch
  | KeyNotAllowed
  | NoUnionMatch
  | UnsupportedType
  | Unhashable
  | BadIsinstance
  | BadHash
  | NotCallable
  | Immutable
  | InvalidKeyType

datatype pyerr =
    TypeError tetag
  | ValueError
  | AttributeError
  | IndexError
  | KeyError
  | AssertionError
  | NotImplementedError
  | Unmodelled

subsection \<open>Truth value, hashing and equality\<close>

text \<open>\<^verbatim>\<open>hash(x)\<close> raises \<^verbatim>\<open>TypeError\<close> on lists, sets, dicts and on tuples that hold
  one. \<^verbatim>\<open>MetaNone.__hash__\<close> returns \<^verbatim>\<open>None\<close> and \<^verbatim>\<open>MetaContainer.__hash__\<close>
  returns \<^verbatim>\<open>self.to_native()\<close>, a container: Python rejects both results with
  \<^verbatim>\<open>TypeError\<close>. The scalar node classes inherit the hash of their builtin base and
  \<^verbatim>\<open>MetaBool.__hash__\<close> returns a boolean.\<close>

fun py_hashable :: "pyobj \<Rightarrow> bool" where
  "py_hashable (PList xs) = False"
| "py_hashable (PSet xs) = False"
| "py_hashable (PDict kvs) = False"
| "py_hashable (PTuple xs) = list_all py_hashable xs"
| "py_hashable (PGeneric g xs) = list_all py_hashable xs"
| "py_hashable (PMeta c v s) = (c \<in> {MetaBool, MetaInt, MetaFloat, MetaStr})"
| "py_hashable x = True"

fun num_of :: "pyobj \<Rightarrow> rat option" where
  "num_of (PBool b) = Some (if b then 1 else 0)"
| "num_of (PInt i) = Some (of_int i)"
| "num_of (PFloat r) = Some r"
| "num_of x = None"

definition is_union_origin :: "origin \<Rightarrow> bool" where
  "is_union_origin g = (g = O_Union \<or> g = O_UnionType)"

fun py_truthy :: "pyobj \<Rightarrow> bool" where
  "py_truthy PNone = False"
| "py_truthy (PBool b) = b"
| "py_truthy (PInt i) = (i \<noteq> 0)"
| "py_truthy (PFloat r) = (r \<noteq> 0)"
| "py_truthy (PStr s) = (s \<noteq> [])"
| "py_truthy (PList xs) = (xs \<noteq> [])"
| "py_truthy (PTuple xs) = (xs \<noteq> [])"
| "py_truthy (PSet xs) = (xs \<noteq> [])"
| "py_truthy (PDict kvs) = (kvs \<noteq> [])"
| "py_truthy (PMeta c v s) = (c \<noteq> MetaNone \<and> py_truthy v)"
| "py_truthy x = True"

definition is_MetaBool :: "pyobj \<Rightarrow> bool" where
  "is_MetaBool x = (case x of PMeta c v s \<Rightarrow> c = MetaBool | _ \<Rightarrow> False)"

definition is_MetaNone :: "pyobj \<Rightarrow> bool" where
  "is_MetaNone x = (case x of PMeta c v s \<Rightarrow> c = MetaNone | _ \<Rightarrow> False)"

text \<open>A \<^verbatim>\<open>MetaInt\<close>, \<^verbatim>\<open>MetaFloat\<close> or \<^verbatim>\<open>MetaStr\<close> node inherits \<^verbatim>\<open>__eq__\<close> and
  \<^verbatim>\<open>__hash__\<close> from \<^verbatim>\<open>int\<close>, \<^verbatim>\<open>float\<close> or \<^verbatim>\<open>str\<close>, which come before
  \<^verbatim>\<open>MetaNodeMixin\<close> in its method resolution order: in a comparison it is the number or
  string it holds.\<close>

definition builtin_view :: "pyobj \<Rightarrow> pyobj" where
  "builtin_view x =
     (case x of
        PMeta c v s \<Rightarrow> if c = MetaInt \<or> c = MetaFloat \<or> c = MetaStr then v else x
      | _ \<Rightarrow> x)"

text \<open>\<open>atom_eq plain x b\<close> is \<^verbatim>\<open>x == b\<close> for a left operand \<open>x\<close> that is no tuple,
  generic or node, or is the value of a scalar node (\<open>plain\<close> is false then).
  \<^item> Against a \<^verbatim>\<open>MetaBool\<close>, whose \<^verbatim>\<open>__eq__\<close> is
    \<^verbatim>\<open>bool(self) == bool(other)\<close>: a \<^verbatim>\<open>bool\<close>, a \<^verbatim>\<open>float\<close> and an integer node
    compare numerically with its value \<open>0\<close> or \<open>1\<close>; a plain \<^verbatim>\<open>int\<close> has
    \<^verbatim>\<open>MetaBool\<close> as a subclass of its type, so the reflected \<^verbatim>\<open>MetaBool.__eq__\<close> runs
    first and compares truth values; every other left operand answers
    \<^verbatim>\<open>NotImplemented\<close> and the reflected method compares truth values too.
  \<^item> Against a \<^verbatim>\<open>MetaNone\<close>, whose \<^verbatim>\<open>__eq__\<close> is
    \<^verbatim>\<open>other is None or isinstance(other, MetaNone)\<close> and is reached by reflection.
  \<^item> Otherwise numbers compare by value across \<^verbatim>\<open>bool\<close>, \<^verbatim>\<open>int\<close> and
    \<^verbatim>\<open>float\<close>, and everything else by identity of structure. Lists, sets, dicts and
    container nodes cannot be hashed and are never compared as keys or members.\<close>

definition atom_eq :: "bool \<Rightarrow> pyobj \<Rightarrow> pyobj \<Rightarrow> bool" where
  "atom_eq plain x b =
     (if is_MetaBool b then
        (case x of
           PBool t \<Rightarrow> t = py_truthy b
         | PInt i \<Rightarrow> if plain then (i \<noteq> 0) = py_truthy b
                     else i = (if py_truthy b then 1 else 0)
         | PFloat r \<Rightarrow> r = (if py_truthy b then 1 else 0)
         | _ \<Rightarrow> py_truthy x = py_truthy b)
      else if is_MetaNone b then x = PNone
      else
        (case x of
           PBool t \<Rightarrow> num_of (builtin_view b) = num_of x
         | PInt i \<Rightarrow> num_of (builtin_view b) = num_of x
         | PFloat r \<Rightarrow> num_of (builtin_view b) = num_of x
         | _ \<Rightarrow> builtin_view b = x))"

text \<open>\<^verbatim>\<open>a == b\<close> on the objects that occur as dict keys and set members: tuples compare
  member by member, two unions as the sets of their arguments, other generics by origin
  and arguments; a \<^verbatim>\<open>MetaBool\<close> on the left compares truth values; a scalar node
  compares as the value it holds.\<close>

fun py_eq :: "pyobj \<Rightarrow> pyobj \<Rightarrow> bool"
  and py_eq_list :: "pyobj list \<Rightarrow> pyobj list \<Rightarrow> bool"
  and py_member :: "pyobj \<Rightarrow> pyobj list \<Rightarrow> bool"
  and py_covers :: "pyobj list \<Rightarrow> pyobj list \<Rightarrow> bool" where
  "py_eq (PTuple xs) b =
     (if is_MetaBool b then (xs \<noteq> []) = py_truthy b
      else (case b of PTuple ys \<Rightarrow> py_eq_list xs ys | _ \<Rightarrow> False))"
| "py_eq (PGeneric g xs) b =
     (if is_MetaBool b then py_truthy b
      else (case b of
              PGeneric h ys \<Rightarrow>
                if is_union_origin g \<and> is_union_origin h
                then py_covers xs ys \<and> list_all (\<lambda>y. py_member y xs) ys
                else g = h \<and> py_eq_list xs ys
            | _ \<Rightarrow> False))"
| "py_eq (PMeta c v s) b =
     (if c = MetaBool then py_truthy b = py_truthy v
      else if c = MetaNone then (b = PNone \<or> is_MetaNone b)
      else if c = MetaInt \<or> c = MetaFloat \<or> c = MetaStr then atom_eq False v b
      else b = PMeta c v s)"
| "py_eq a b = atom_eq True a b"
| "py_eq_list [] ys = (ys = [])"
| "py_eq_list (x # xs) ys = (case ys of [] \<Rightarrow> False | y # ys' \<Rightarrow> py_eq x y \<and> py_eq_list xs ys')"
| "py_member y [] = False"
| "py_member y (x # xs) = (py_eq x y \<or> py_member y xs)"
| "py_covers [] ys = True"
| "py_covers (x # xs) ys = (list_ex (py_eq x) ys \<and> py_covers xs ys)"

text \<open>Hashes, as far as they decide whether two equal objects are the same key. The hash of
  an integer is CPython's (modulus \<open>2\<^sup>6\<^sup>1 - 1\<close>), an integral float hashes as the
  integer and the empty string to \<open>0\<close>; the hash of a non-empty string is randomized
  per process and is taken to differ from every number's and from every other string's.
  A scalar node hashes as the value it holds, and \<^verbatim>\<open>MetaBool.__hash__\<close> returns its
  boolean.\<close>

datatype hashv = HNum int | HFrac rat | HStr string

definition cpython_int_hash :: "int \<Rightarrow> int" where
  "cpython_int_hash i =
     (let h = (if i < 0 then - ((- i) mod (2 ^ 61 - 1)) else i mod (2 ^ 61 - 1))
      in if h = - 1 then - 2 else h)"

fun scalar_hash :: "pyobj \<Rightarrow> hashv option" where
  "scalar_hash (PBool b) = Some (HNum (if b then 1 else 0))"
| "scalar_hash (PInt i) = Some (HNum (cpython_int_hash i))"
| "scalar_hash (PFloat r) =
     Some (if r = of_int \<lfloor>r\<rfloor> then HNum (cpython_int_hash \<lfloor>r\<rfloor>) else HFrac r)"
| "scalar_hash (PStr s) = Some (if s = [] then HNum 0 else HStr s)"
| "scalar_hash (PMeta c v s) =
     (if c \<in> {MetaBool, MetaInt, MetaFloat, MetaStr} then scalar_hash v else None)"
| "scalar_hash x = None"

text \<open>Equal objects have equal hashes, except where \<^verbatim>\<open>MetaBool.__eq__\<close> is involved: it
  calls objects of one truth value equal whatever their hashes. There the hashes are
  compared, and an object that is no number or string is taken to hash to neither \<open>0\<close>
  nor \<open>1\<close>.\<close>

fun hash_agree :: "pyobj \<Rightarrow> pyobj \<Rightarrow> bool"
  and hash_agree_list :: "pyobj list \<Rightarrow> pyobj list \<Rightarrow> bool" where
  "hash_agree (PTuple xs) b =
     (case b of PTuple ys \<Rightarrow> hash_agree_list xs ys | _ \<Rightarrow> \<not> is_MetaBool b)"
| "hash_agree a b =
     (if is_MetaBool a \<or> is_MetaBool b then scalar_hash a = scalar_hash b else True)"
| "hash_agree_list [] ys = True"
| "hash_agree_list (x # xs) ys =
     (case ys of [] \<Rightarrow> True | y # ys' \<Rightarrow> hash_agree x y \<and> hash_agree_list xs ys')"

text \<open>\<open>same_key stored k\<close>: the test a dict or set makes between a stored key and the key
  looked up, equal hashes and \<^verbatim>\<open>stored == k\<close>.\<close>

definition same_key :: "pyobj \<Rightarrow> pyobj \<Rightarrow> bool" where
  "same_key stored k = (py_eq stored k \<and> hash_agree stored k)"

text \<open>\<^verbatim>\<open>k in d\<close>, \<^verbatim>\<open>d[k]\<close> and \<^verbatim>\<open>d[k] = v\<close> on a dict, \<^verbatim>\<open>s.add(x)\<close> on a set. A
  store under a key that is already there keeps the old key object and its place.\<close>

fun dict_lookup :: "(pyobj \<times> pyobj) list \<Rightarrow> pyobj \<Rightarrow> pyobj option" where
  "dict_lookup [] k = None"
| "dict_lookup ((k', v) # kvs) k = (if same_key k' k then Some v else dict_lookup kvs k)"

fun dict_store :: "(pyobj \<times> pyobj) list \<Rightarrow> pyobj \<Rightarrow> pyobj \<Rightarrow> (pyobj \<times> pyobj) list" where
  "dict_store [] k v = [(k, v)]"
| "dict_store ((k', v') # kvs) k v =
     (if same_key k' k then (k', v) # kvs else (k', v') # dict_store kvs k v)"

definition set_add :: "pyobj list \<Rightarrow> pyobj \<Rightarrow> pyobj list" where
  "set_add xs x = (if list_ex (\<lambda>e. same_key e x) xs then xs else xs @ [x])"

subsection \<open>Names and printed forms\<close>

definition tyname_str :: "tyname \<Rightarrow> string" where
  "tyname_str t =
     (case t of T_bool \<Rightarrow> ''bool'' | T_int \<Rightarrow> ''int'' | T_float \<Rightarrow> ''float'' | T_str \<Rightarrow> ''str''
      | T_NoneType \<Rightarrow> ''NoneType'' | T_dict \<Rightarrow> ''dict'' | T_list \<Rightarrow> ''list''
      | T_set \<Rightarrow> ''set'' | T_tuple \<Rightarrow> ''tuple'')"

text \<open>\<^verbatim>\<open>t.__name__\<close>: classes and \<^verbatim>\<open>typing.Any\<close> have one, instances of the builtin
  containers and scalars do not.\<close>

fun py_name :: "pyobj \<Rightarrow> pyerr + string" where
  "py_name (PType t) = Inr (tyname_str t)"
| "py_name PAny = Inr ''Any''"
| "py_name (PGeneric g xs) = Inl Unmodelled"
| "py_name (PSchema r v c) = Inl AttributeError"
| "py_name (PMeta c v s) = Inl AttributeError"
| "py_name x = Inl AttributeError"

function show_nat :: "nat \<Rightarrow> string" where
  "show_nat n =
     (if n < 10 then [char_of (48 + n)] else show_nat (n div 10) @ [char_of (48 + n mod 10)])"
  by pat_completeness auto
termination
  by (relation "measure id") auto

definition show_int :: "int \<Rightarrow> string" where
  "show_int i = (if i < 0 then CHR ''-'' # show_nat (nat (- i)) else show_nat (nat i))"

fun join_comma :: "string list \<Rightarrow> string" where
  "join_comma [] = []"
| "join_comma [s] = s"
| "join_comma (s # t # ss) = s @ '', '' @ join_comma (t # ss)"

fun sequence_err :: "('e + 'a) list \<Rightarrow> 'e + 'a list" where
  "sequence_err [] = Inr []"
| "sequence_err (Inl e # rs) = Inl e"
| "sequence_err (Inr x # rs) = (case sequence_err rs of Inl e \<Rightarrow> Inl e | Inr xs \<Rightarrow> Inr (x # xs))"

text \<open>\<^verbatim>\<open>repr(x)\<close> for the objects whose printed form is fixed and simple; a string is
  printed only when it needs no escape.\<close>

fun py_repr :: "pyobj \<Rightarrow> pyerr + string" where
  "py_repr PNone = Inr ''None''"
| "py_repr PEllipsis = Inr ''Ellipsis''"
| "py_repr (PBool b) = Inr (if b then ''True'' else ''False'')"
| "py_repr (PInt i) = Inr (show_int i)"
| "py_repr (PStr s) =
     (if list_all (\<lambda>c. 32 \<le> (of_char c :: nat) \<and> (of_char c :: nat) < 127
                        \<and> c \<noteq> CHR 0x27 \<and> c \<noteq> CHR 0x5C) s
      then Inr ([CHR 0x27] @ s @ [CHR 0x27]) else Inl Unmodelled)"
| "py_repr PAny = Inr ''typing.Any''"
| "py_repr (PType t) = Inr (''<class '' @ [CHR 0x27] @ tyname_str t @ [CHR 0x27] @ ''>'')"
| "py_repr (PTuple xs) =
     (case sequence_err (map py_repr xs) of
        Inl e \<Rightarrow> Inl e
      | Inr ss \<Rightarrow> Inr (if length ss = 1 then ''('' @ hd ss @ '',)'' else ''('' @ join_comma ss @ '')''))"
| "py_repr (PList xs) =
     (case sequence_err (map py_repr xs) of
        Inl e \<Rightarrow> Inl e
      | Inr ss \<Rightarrow> Inr (''['' @ join_comma ss @ '']''))"
| "py_repr x = Inl Unmodelled"

definition py_str :: "pyobj \<Rightarrow> pyerr + string" where
  "py_str x = (case x of PStr s \<Rightarrow> Inr s | _ \<Rightarrow> py_repr x)"

text \<open>\<^verbatim>\<open>sorted(xs, key=f)\<close>: every key is computed first, then a stable sort.\<close>

definition sorted_by :: "(pyobj \<Rightarrow> pyerr + string) \<Rightarrow> pyobj list \<Rightarrow> pyerr + pyobj list" where
  "sorted_by f xs =
     (case sequence_err (map f xs) of
        Inl e \<Rightarrow> Inl e
      | Inr ks \<Rightarrow> Inr (map snd (sort_key fst (zip ks xs))))"

section \<open>Schema normalization (\<^verbatim>\<open>Schema._normalize_schema\<close>)\<close>

text \<open>The method tests, in this order: \<^verbatim>\<open>X | Y\<close>, \<^verbatim>\<open>Union\<close>, \<^verbatim>\<open>Dict\<close>,
  \<^verbatim>\<open>List\<close>, \<^verbatim>\<open>Set\<close>, \<^verbatim>\<open>Tuple\<close>, a dict instance, and returns anything else as it
  is. A node used as a schema expression is outside the fragment. A union becomes the set of its normalized arguments other than \<^verbatim>\<open>NoneType\<close>;
  building a set or a dict hashes the member or key, which can raise. In
  \<^verbatim>\<open>out[key] = self._normalize_schema(v)\<close> Python evaluates the right-hand side before
  the subscript, so the value is normalized before \<^verbatim>\<open>norm_key[0]\<close> is read.\<close>

definition explicit_key :: "pyobj \<Rightarrow> pyerr + pyobj" where
  "explicit_key norm_key =
     (case norm_key of
        PTuple xs \<Rightarrow>
          if length xs > 1 then Inr norm_key
          else (case xs of [] \<Rightarrow> Inl IndexError | x # _ \<Rightarrow> Inr x)
      | _ \<Rightarrow> Inr norm_key)"

function (sequential) normalize_schema :: "pyobj \<Rightarrow> pyerr + pyobj"
  and normalize_members :: "pyobj list \<Rightarrow> pyobj list \<Rightarrow> pyerr + pyobj list"
  and normalize_each :: "pyobj list \<Rightarrow> pyerr + pyobj list"
  and normalize_items :: "(pyobj \<times> pyobj) list \<Rightarrow> (pyobj \<times> pyobj) list \<Rightarrow> pyerr + (pyobj \<times> pyobj) list"
  where
  "normalize_schema (PGeneric O_UnionType args) =
     (case normalize_members args [] of Inl e \<Rightarrow> Inl e | Inr ms \<Rightarrow> Inr (PSet ms))"
| "normalize_schema (PGeneric O_Union args) =
     (case normalize_members args [] of Inl e \<Rightarrow> Inl e | Inr ms \<Rightarrow> Inr (PSet ms))"
| "normalize_schema (PGeneric O_dict [key_type, val_type]) =
     (case normalize_schema key_type of
        Inl e \<Rightarrow> Inl e
      | Inr norm_key \<Rightarrow>
         (case normalize_schema val_type of
            Inl e \<Rightarrow> Inl e
          | Inr norm_val \<Rightarrow>
             (case (case norm_key of
                      PSet ms \<Rightarrow> (case sorted_by py_name ms of Inl e \<Rightarrow> Inl e | Inr ss \<Rightarrow> Inr (PTuple ss))
                    | _ \<Rightarrow> Inr norm_key) of
                Inl e \<Rightarrow> Inl e
              | Inr key_tuple \<Rightarrow>
                  if py_hashable key_tuple then Inr (PDict [(key_tuple, norm_val)])
                  else Inl (TypeError Unhashable))))"
| "normalize_schema (PGeneric O_dict args) = Inr (PDict [(PAny, PAny)])"
| "normalize_schema (PGeneric O_list []) = Inr (PList [PAny])"
| "normalize_schema (PGeneric O_list (item_type # rest)) =
     (case normalize_schema item_type of Inl e \<Rightarrow> Inl e | Inr n \<Rightarrow> Inr (PList [n]))"
| "normalize_schema (PGeneric O_set []) = Inr (PSet [PAny])"
| "normalize_schema (PGeneric O_set (item_type # rest)) =
     (case normalize_schema item_type of
        Inl e \<Rightarrow> Inl e
      | Inr n \<Rightarrow> if py_hashable n then Inr (PSet [n]) else Inl (TypeError Unhashable))"
| "normalize_schema (PGeneric O_tuple []) = Inr (PTuple [])"
| "normalize_schema (PGeneric O_tuple (a # rest)) =
     (if last (a # rest) = PEllipsis
      then (case normalize_schema a of Inl e \<Rightarrow> Inl e | Inr n \<Rightarrow> Inr (PTuple [n, PEllipsis]))
      else (case normalize_each (a # rest) of Inl e \<Rightarrow> Inl e | Inr ns \<Rightarrow> Inr (PTuple ns)))"
| "normalize_schema (PDict kvs) =
     (case normalize_items kvs [] of Inl e \<Rightarrow> Inl e | Inr out \<Rightarrow> Inr (PDict out))"
| "normalize_schema (PMeta c v s) = Inl Unmodelled"
| "normalize_schema schema = Inr schema"
| "normalize_members [] acc = Inr acc"
| "normalize_members (arg # args) acc =
     (if arg = PType T_NoneType then normalize_members args acc
      else (case normalize_schema arg of
              Inl e \<Rightarrow> Inl e
            | Inr n \<Rightarrow>
                if py_hashable n then normalize_members args (set_add acc n)
                else Inl (TypeError Unhashable)))"
| "normalize_each [] = Inr []"
| "normalize_each (arg # args) =
     (case normalize_schema arg of
        Inl e \<Rightarrow> Inl e
      | Inr n \<Rightarrow> (case normalize_each args of Inl e \<Rightarrow> Inl e | Inr ns \<Rightarrow> Inr (n # ns)))"
| "normalize_items [] out = Inr out"
| "normalize_items ((k, v) # rest) out =
     (case normalize_schema k of
        Inl e \<Rightarrow> Inl e
      | Inr nk \<Rightarrow>
         (case (case nk of
                  PSet ms \<Rightarrow> (case sorted_by py_str ms of Inl e \<Rightarrow> Inl e | Inr ss \<Rightarrow> Inr (PTuple ss))
                | _ \<Rightarrow> Inr nk) of
            Inl e \<Rightarrow> Inl e
          | Inr norm_key \<Rightarrow>
             (case normalize_schema v of
                Inl e \<Rightarrow> Inl e
              | Inr nv \<Rightarrow>
                 (case explicit_key norm_key of
                    Inl e \<Rightarrow> Inl e
                  | Inr key \<Rightarrow>
                      if py_hashable key then normalize_items rest (dict_store out key nv)
                      else Inl (TypeError Unhashable)))))"
  by pat_completeness auto
termination
  by (relation "measure (\<lambda>x. case x of
        Inl (Inl s) \<Rightarrow> size s
      | Inl (Inr (args, acc)) \<Rightarrow> size_list size args
      | Inr (Inl args) \<Rightarrow> size_list size args
      | Inr (Inr (kvs, out)) \<Rightarrow> size_list (size_prod size size) kvs)") auto


section \<open>Reflection: \<^verbatim>\<open>isinstance\<close>, \<^verbatim>\<open>get_origin\<close>, \<^verbatim>\<open>get_args\<close>, truth value\<close>

text \<open>\<open>inst x t\<close> is \<^verbatim>\<open>isinstance(x, t)\<close> for a builtin class \<open>t\<close>. \<^verbatim>\<open>bool\<close> is a
  subclass of \<^verbatim>\<open>int\<close>. A node is an instance of the builtin its class derives from:
  \<^verbatim>\<open>MetaBool\<close> derives from \<^verbatim>\<open>int\<close> (not \<^verbatim>\<open>bool\<close>), \<^verbatim>\<open>MetaNone\<close> from no
  builtin.\<close>

fun inst :: "pyobj \<Rightarrow> tyname \<Rightarrow> bool" where
  "inst PNone t = (t = T_NoneType)"
| "inst (PBool b) t = (t = T_bool \<or> t = T_int)"
| "inst (PInt i) t = (t = T_int)"
| "inst (PFloat r) t = (t = T_float)"
| "inst (PStr s) t = (t = T_str)"
| "inst (PList xs) t = (t = T_list)"
| "inst (PTuple xs) t = (t = T_tuple)"
| "inst (PSet xs) t = (t = T_set)"
| "inst (PDict kvs) t = (t = T_dict)"
| "inst (PMeta c v s) t =
     (case c of MetaBool \<Rightarrow> t = T_int | MetaInt \<Rightarrow> t = T_int | MetaFloat \<Rightarrow> t = T_float
      | MetaStr \<Rightarrow> t = T_str | MetaNone \<Rightarrow> False | MetaDict \<Rightarrow> t = T_dict
      | MetaList \<Rightarrow> t = T_list | MetaSet \<Rightarrow> t = T_set | MetaTuple \<Rightarrow> t = T_tuple)"
| "inst x t = False"

text \<open>\<^verbatim>\<open>isinstance(x, cls)\<close> for an arbitrary second argument: a class, a tuple of
  admissible arguments or an \<^verbatim>\<open>X | Y\<close> union (tried left to right, stopping at the
  first success); anything else raises \<^verbatim>\<open>TypeError\<close>.\<close>

fun py_isinstance :: "pyobj \<Rightarrow> pyobj \<Rightarrow> pyerr + bool"
  and py_isinstance_any :: "pyobj \<Rightarrow> pyobj list \<Rightarrow> pyerr + bool" where
  "py_isinstance x (PType t) = Inr (inst x t)"
| "py_isinstance x (PTuple ts) = py_isinstance_any x ts"
| "py_isinstance x (PGeneric O_UnionType ts) = py_isinstance_any x ts"
| "py_isinstance x cls = Inl (TypeError BadIsinstance)"
| "py_isinstance_any x [] = Inr False"
| "py_isinstance_any x (t # ts) =
     (case py_isinstance x t of
        Inl e \<Rightarrow> Inl e
      | Inr b \<Rightarrow> if b then Inr True else py_isinstance_any x ts)"

definition is_type :: "pyobj \<Rightarrow> bool" where
  "is_type x = (case x of PType t \<Rightarrow> True | _ \<Rightarrow> False)"

definition is_node :: "pyobj \<Rightarrow> bool" where
  "is_node x = (case x of PMeta c v s \<Rightarrow> True | _ \<Rightarrow> False)"

definition is_Schema :: "pyobj \<Rightarrow> bool" where
  "is_Schema x = (case x of PSchema r v c \<Rightarrow> True | _ \<Rightarrow> False)"

definition get_origin :: "pyobj \<Rightarrow> origin option" where
  "get_origin x = (case x of PGeneric g args \<Rightarrow> Some g | _ \<Rightarrow> None)"

definition get_args :: "pyobj \<Rightarrow> pyobj list" where
  "get_args x = (case x of PGeneric g args \<Rightarrow> args | _ \<Rightarrow> [])"

text \<open>The integer an object stands for when it is used as an index: instances of
  \<^verbatim>\<open>int\<close>, so booleans and the nodes over them as well.\<close>

fun int_value :: "pyobj \<Rightarrow> int option" where
  "int_value (PBool b) = Some (if b then 1 else 0)"
| "int_value (PInt i) = Some i"
| "int_value (PMeta c v s) = (if c = MetaBool \<or> c = MetaInt then int_value v else None)"
| "int_value x = None"

text \<open>\<^verbatim>\<open>xs[i]\<close> on a list or tuple, with Python's negative indices.\<close>

definition py_index :: "'a list \<Rightarrow> int \<Rightarrow> pyerr + 'a" where
  "py_index xs i =
     (if i < - int (length xs) \<or> int (length xs) \<le> i then Inl IndexError
      else if i < 0 then Inr (xs ! nat (int (length xs) + i))
      else Inr (xs ! nat i))"

section \<open>The \<^verbatim>\<open>Schema\<close> class\<close>

text \<open>\<^verbatim>\<open>Schema.__init__(raw_schema, *, validator_cls=SchemaValidator, **kwargs)\<close>. The
  only keyword read is \<^verbatim>\<open>validate\<close> (\<open>None\<close> here when it is absent). A falsy
  expression is not normalized: the stored schema is \<^verbatim>\<open>None\<close>. The default of
  \<^verbatim>\<open>_validate\<close> is \<^verbatim>\<open>isinstance(self.schema, (dict, list, tuple, set, bool, str, int))\<close>,
  which is false for a class such as \<^verbatim>\<open>int\<close> and for \<^verbatim>\<open>None\<close>.\<close>

definition Schema_init :: "pyobj \<Rightarrow> bool option \<Rightarrow> vcls \<Rightarrow> pyerr + pyobj" where
  "Schema_init raw_schema validate validator_cls =
     (case (if py_truthy raw_schema then normalize_schema raw_schema else Inr PNone) of
        Inl e \<Rightarrow> Inl e
      | Inr schema \<Rightarrow>
          Inr (PSchema schema
                 (case validate of
                    Some b \<Rightarrow> b
                  | None \<Rightarrow> list_ex (inst schema) [T_dict, T_list, T_tuple, T_set, T_bool, T_str, T_int])
                 (if py_truthy schema then validator_cls else NoOpValidator_cls)))"

text \<open>\<^verbatim>\<open>Schema.ensure(value)\<close>, called without keywords.\<close>

definition Schema_ensure :: "pyobj \<Rightarrow> pyerr + pyobj" where
  "Schema_ensure v = (if is_Schema v then Inr v else Schema_init v None SchemaValidator_cls)"

text \<open>A validator object: \<^verbatim>\<open>NoOpValidator()\<close> or \<^verbatim>\<open>SchemaValidator(schema)\<close>.
  \<^verbatim>\<open>Schema.build_validator\<close> calls \<^verbatim>\<open>self.validator_cls(self.schema)\<close>;
  \<^verbatim>\<open>NoOpValidator\<close> has no constructor taking an argument, so that call raises
  \<^verbatim>\<open>TypeError\<close>.\<close>

datatype validator = NoOpValidator | SchemaValidator pyobj

definition build_validator :: "pyobj \<Rightarrow> pyerr + validator" where
  "build_validator self =
     (case self of
        PSchema schema validate cls \<Rightarrow>
          if \<not> validate then Inr NoOpValidator
          else (case cls of
                  SchemaValidator_cls \<Rightarrow> Inr (SchemaValidator schema)
                | NoOpValidator_cls \<Rightarrow> Inl (TypeError NotCallable))
      | _ \<Rightarrow> Inl AttributeError)"

text \<open>The loop of \<^verbatim>\<open>resolve_from\<close> over the items of a dict schema: a tuple key matches
  when the key is an instance of one of its members, a class key when the key is an
  instance of it; the first match wins.\<close>

fun resolve_by_type :: "(pyobj \<times> pyobj) list \<Rightarrow> pyobj \<Rightarrow> pyerr + pyobj option" where
  "resolve_by_type [] key = Inr None"
| "resolve_by_type ((k_type, v_type) # rest) key =
     (if inst k_type T_tuple
      then (case py_isinstance_any key (case k_type of PTuple ts \<Rightarrow> ts | _ \<Rightarrow> []) of
              Inl e \<Rightarrow> Inl e
            | Inr b \<Rightarrow> if b then Inr (Some v_type) else resolve_by_type rest key)
      else if is_type k_type \<and> (case k_type of PType t \<Rightarrow> inst key t | _ \<Rightarrow> False)
      then Inr (Some v_type)
      else resolve_by_type rest key)"

text \<open>\<^verbatim>\<open>Schema.resolve_from(key, value, level)\<close>. \<open>sub_schema_raw\<close> starts as
  \<^verbatim>\<open>None\<close>; a dict schema is searched by key, then by key type; a list or set schema
  is indexed with \<^verbatim>\<open>list(schema)[key]\<close> when the key is an \<^verbatim>\<open>int\<close>, an
  \<^verbatim>\<open>IndexError\<close> being swallowed; a tuple schema gives its first member when it ends
  with \<^verbatim>\<open>...\<close> and the member at \<open>level\<close> otherwise. \<^verbatim>\<open>None\<close> becomes
  \<^verbatim>\<open>Any\<close>, and the result is wrapped in a \<^verbatim>\<open>Schema\<close> that inherits
  \<^verbatim>\<open>_validate\<close> and \<^verbatim>\<open>validator_cls\<close>.\<close>

definition sub_schema_raw :: "pyobj \<Rightarrow> pyobj \<Rightarrow> int \<Rightarrow> pyerr + pyobj" where
  "sub_schema_raw schema key level =
     (case schema of
        PDict items \<Rightarrow>
          if \<not> py_hashable key then Inl (TypeError Unhashable)
          else (case dict_lookup items key of
                  Some v \<Rightarrow> Inr v
                | None \<Rightarrow> (case resolve_by_type items key of
                             Inl e \<Rightarrow> Inl e
                           | Inr None \<Rightarrow> Inr PNone
                           | Inr (Some v) \<Rightarrow> Inr v))
      | PList xs \<Rightarrow>
          (case int_value key of
             Some i \<Rightarrow> (case py_index xs i of Inl e \<Rightarrow> Inr PNone | Inr x \<Rightarrow> Inr x)
           | None \<Rightarrow> Inr PNone)
      | PSet xs \<Rightarrow>
          (case int_value key of
             Some i \<Rightarrow> (case py_index xs i of Inl e \<Rightarrow> Inr PNone | Inr x \<Rightarrow> Inr x)
           | None \<Rightarrow> Inr PNone)
      | PTuple xs \<Rightarrow>
          (case xs of
             [] \<Rightarrow> Inl IndexError
           | x # _ \<Rightarrow>
               if last xs = PEllipsis then Inr x
               else if 0 \<le> level \<and> level < int (length xs) then Inr (xs ! nat level)
               else Inr PNone)
      | PMeta c v s \<Rightarrow> Inl Unmodelled
      | _ \<Rightarrow> Inr PNone)"

definition resolve_from :: "pyobj \<Rightarrow> pyobj \<Rightarrow> int \<Rightarrow> pyerr + pyobj" where
  "resolve_from self key level =
     (case self of
        PSchema schema validate cls \<Rightarrow>
          (case sub_schema_raw schema key level of
             Inl e \<Rightarrow> Inl e
           | Inr raw \<Rightarrow>
               let raw' = (if raw = PNone then PAny else raw)
               in if is_Schema raw' then Inr raw' else Schema_init raw' (Some validate) cls)
      | _ \<Rightarrow> Inl AttributeError)"


section \<open>Default values\<close>

text \<open>\<^verbatim>\<open>tp()\<close>, a call without arguments, as both default functions use it inside
  \<^verbatim>\<open>try\<close>: the builtin classes give their empty value; \<^verbatim>\<open>typing.Any\<close>, a union
  and the subscripted aliases of \<^verbatim>\<open>typing\<close> (created with \<^verbatim>\<open>inst=False\<close>) raise
  \<^verbatim>\<open>TypeError\<close>, as does an object that is not callable or, for a \<^verbatim>\<open>Schema\<close>, is
  called without its argument.\<close>

fun py_call0 :: "pyobj \<Rightarrow> pyerr + pyobj" where
  "py_call0 (PType t) =
     Inr (case t of T_bool \<Rightarrow> PBool False | T_int \<Rightarrow> PInt 0 | T_float \<Rightarrow> PFloat 0
          | T_str \<Rightarrow> PStr [] | T_NoneType \<Rightarrow> PNone | T_dict \<Rightarrow> PDict []
          | T_list \<Rightarrow> PList [] | T_set \<Rightarrow> PSet [] | T_tuple \<Rightarrow> PTuple [])"
| "py_call0 (PMeta c v s) = Inl Unmodelled"
| "py_call0 x = Inl (TypeError NotCallable)"

text \<open>\<^verbatim>\<open>try: return tp() except Exception: return None\<close>.\<close>

definition call0_or_None :: "pyobj \<Rightarrow> pyerr + pyobj" where
  "call0_or_None tp =
     (case py_call0 tp of Inl Unmodelled \<Rightarrow> Inl Unmodelled | Inl e \<Rightarrow> Inr PNone | Inr v \<Rightarrow> Inr v)"

text \<open>\<^verbatim>\<open>helpers.get_default_from_type\<close>. Its first test sends every tuple to the default
  of its first member (\<^verbatim>\<open>tp[0]\<close>, an \<^verbatim>\<open>IndexError\<close> on the empty tuple), so the two
  later tuple branches of the source are never reached.\<close>

fun get_default_from_type :: "pyobj \<Rightarrow> pyerr + pyobj" where
  "get_default_from_type (PTuple []) = Inl IndexError"
| "get_default_from_type (PTuple (t # ts)) = get_default_from_type t"
| "get_default_from_type (PSet xs) = Inr (PSet [])"
| "get_default_from_type (PList xs) = Inr (PList [])"
| "get_default_from_type (PDict kvs) = Inr (PDict [])"
| "get_default_from_type (PMeta c v s) = Inl Unmodelled"
| "get_default_from_type tp =
     (if tp \<in> set [PType T_int, PType T_float, PType T_str, PType T_bool] then py_call0 tp
      else if tp = PNone \<or> tp = PType T_NoneType then Inr PNone
      else call0_or_None tp)"

text \<open>\<^verbatim>\<open>meta_core.get_default_value_from_type\<close>. Only \<^verbatim>\<open>typing.Union\<close> has the
  origin \<^verbatim>\<open>Union\<close>; \<^verbatim>\<open>X | Y\<close> has the origin \<^verbatim>\<open>types.UnionType\<close>.\<close>

fun get_default_value_from_type :: "pyobj \<Rightarrow> pyerr + pyobj"
  and default_of_first :: "pyobj list \<Rightarrow> pyerr + pyobj" where
  "get_default_value_from_type PAny = Inr PNone"
| "get_default_value_from_type PNone = Inr PNone"
| "get_default_value_from_type (PGeneric O_Union args) = default_of_first args"
| "get_default_value_from_type (PList xs) = Inr (PList [])"
| "get_default_value_from_type (PSet xs) = Inr (PSet [])"
| "get_default_value_from_type (PDict kvs) = Inr (PDict [])"
| "get_default_value_from_type (PMeta c v s) = Inl Unmodelled"
| "get_default_value_from_type (PGeneric O_list args) = Inr (PList [])"
| "get_default_value_from_type (PGeneric O_set args) = Inr (PSet [])"
| "get_default_value_from_type (PGeneric O_dict args) = Inr (PDict [])"
| "get_default_value_from_type (PType t) = call0_or_None (PType t)"
| "get_default_value_from_type tp = Inr PNone"
| "default_of_first [] = Inr PNone"
| "default_of_first (sub # args) =
     (if sub \<noteq> PType T_NoneType then get_default_value_from_type sub else default_of_first args)"

section \<open>Unwrapping (\<^verbatim>\<open>to_native\<close>)\<close>

definition dict_of :: "(pyobj \<times> pyobj) list \<Rightarrow> (pyobj \<times> pyobj) list" where
  "dict_of kvs = foldl (\<lambda>acc kv. dict_store acc (fst kv) (snd kv)) [] kvs"

definition set_of :: "pyobj list \<Rightarrow> pyobj list" where
  "set_of xs = foldl set_add [] xs"

text \<open>\<^verbatim>\<open>to_native\<close> of a node; \<open>to_native\<close> of anything else is the object itself,
  which is \<^verbatim>\<open>v.to_native() if hasattr(v, "to_native") else v\<close>. A container node
  rebuilds the builtin container from its unwrapped members; a scalar node returns
  \<^verbatim>\<open>container_type(self)\<close>, \<^verbatim>\<open>MetaBool\<close> returns \<^verbatim>\<open>bool(self)\<close> and
  \<^verbatim>\<open>MetaNone\<close> returns \<^verbatim>\<open>None\<close>.\<close>

fun to_native :: "pyobj \<Rightarrow> pyobj" where
  "to_native (PMeta c (PDict kvs) s) =
     PDict (dict_of (map (\<lambda>kv. (to_native (fst kv), to_native (snd kv))) kvs))"
| "to_native (PMeta c (PSet xs) s) = PSet (set_of (map to_native xs))"
| "to_native (PMeta c (PList xs) s) = PList (map to_native xs)"
| "to_native (PMeta c (PTuple xs) s) = PTuple (map to_native xs)"
| "to_native (PMeta c v s) = (if c = MetaNone then PNone else v)"
| "to_native x = x"

text \<open>The members a \<^verbatim>\<open>for\<close> loop sees: the items of a list, tuple or set, the keys of
  a dict, the one-character strings of a string; a node iterates as its builtin base.
  Iterating a number, \<^verbatim>\<open>None\<close>, \<^verbatim>\<open>Ellipsis\<close> or a class raises \<^verbatim>\<open>TypeError\<close>.\<close>

fun py_iter :: "pyobj \<Rightarrow> pyerr + pyobj list" where
  "py_iter (PList xs) = Inr xs"
| "py_iter (PTuple xs) = Inr xs"
| "py_iter (PSet xs) = Inr xs"
| "py_iter (PDict kvs) = Inr (map fst kvs)"
| "py_iter (PStr s) = Inr (map (\<lambda>c. PStr [c]) s)"
| "py_iter (PMeta c v s) =
     (if c \<in> {MetaDict, MetaList, MetaSet, MetaTuple, MetaStr} then py_iter v
      else Inl (TypeError Mismatch))"
| "py_iter (PGeneric g args) = Inl Unmodelled"
| "py_iter (PSchema r v c) = Inl Unmodelled"
| "py_iter x = Inl (TypeError Mismatch)"

fun seq_items :: "pyobj \<Rightarrow> pyobj list" where
  "seq_items (PList xs) = xs"
| "seq_items (PTuple xs) = xs"
| "seq_items (PSet xs) = xs"
| "seq_items (PMeta c v s) = seq_items v"
| "seq_items x = []"

fun dict_items :: "pyobj \<Rightarrow> (pyobj \<times> pyobj) list" where
  "dict_items (PDict kvs) = kvs"
| "dict_items (PMeta c v s) = dict_items v"
| "dict_items x = []"

section \<open>Type checks (\<^verbatim>\<open>helpers.is_type_match\<close>, \<^verbatim>\<open>SchemaValidator.type_check\<close>)\<close>

text \<open>Loops that stop at the first exception; \<open>all_err\<close> and \<open>any_err\<close> are the
  short-circuiting \<^verbatim>\<open>all(...)\<close> and \<^verbatim>\<open>any(...)\<close> over a generator.\<close>

fun each_err :: "('a \<Rightarrow> pyerr + unit) \<Rightarrow> 'a list \<Rightarrow> pyerr + unit" where
  "each_err f [] = Inr ()"
| "each_err f (x # xs) = (case f x of Inl e \<Rightarrow> Inl e | Inr u \<Rightarrow> each_err f xs)"

fun all_err :: "('a \<Rightarrow> pyerr + bool) \<Rightarrow> 'a list \<Rightarrow> pyerr + bool" where
  "all_err f [] = Inr True"
| "all_err f (x # xs) =
     (case f x of Inl e \<Rightarrow> Inl e | Inr b \<Rightarrow> if b then all_err f xs else Inr False)"

fun any_err :: "('a \<Rightarrow> pyerr + bool) \<Rightarrow> 'a list \<Rightarrow> pyerr + bool" where
  "any_err f [] = Inr False"
| "any_err f (x # xs) =
     (case f x of Inl e \<Rightarrow> Inl e | Inr b \<Rightarrow> if b then Inr True else any_err f xs)"

lemma each_err_cong [fundef_cong]:
  "xs = ys \<Longrightarrow> (\<And>x. x \<in> set ys \<Longrightarrow> f x = g x) \<Longrightarrow> each_err f xs = each_err g ys"
  by (induction ys arbitrary: xs) (auto split: sum.splits)

lemma all_err_cong [fundef_cong]:
  "xs = ys \<Longrightarrow> (\<And>x. x \<in> set ys \<Longrightarrow> f x = g x) \<Longrightarrow> all_err f xs = all_err g ys"
  by (induction ys arbitrary: xs) (auto split: sum.splits)

lemma any_err_cong [fundef_cong]:
  "xs = ys \<Longrightarrow> (\<And>x. x \<in> set ys \<Longrightarrow> f x = g x) \<Longrightarrow> any_err f xs = any_err g ys"
  by (induction ys arbitrary: xs) (auto split: sum.splits)

lemma pyobj_size_member: "x \<in> set xs \<Longrightarrow> size (x::pyobj) < Suc (size_list size xs)"
  by (induction xs) auto

text \<open>\<^verbatim>\<open>is_type_match(value, expected_type, base_class)\<close>. A node is unwrapped first.
  Only \<^verbatim>\<open>typing.Union\<close> is treated as a union; an \<^verbatim>\<open>X | Y\<close> union, \<^verbatim>\<open>Any\<close> and
  every expected type that is neither a generic nor a class match everything. The
  unpacking \<^verbatim>\<open>(item_type,) = args\<close> raises \<^verbatim>\<open>ValueError\<close> on more than one
  argument.\<close>

function is_type_match :: "pyobj \<Rightarrow> pyobj \<Rightarrow> pyerr + bool" where
  "is_type_match v expected_type =
     (let value = to_native v in
      case expected_type of
        PGeneric g args \<Rightarrow>
          (case g of
             O_Union \<Rightarrow> any_err (\<lambda>t. is_type_match value t) args
           | O_list \<Rightarrow>
               if \<not> inst value T_list then Inr False
               else (case args of
                       [] \<Rightarrow> all_err (\<lambda>x. is_type_match x PAny) (seq_items value)
                     | [item_type] \<Rightarrow> all_err (\<lambda>x. is_type_match x item_type) (seq_items value)
                     | _ \<Rightarrow> Inl ValueError)
           | O_set \<Rightarrow>
               if \<not> inst value T_set then Inr False
               else (case args of
                       [] \<Rightarrow> all_err (\<lambda>x. is_type_match x PAny) (seq_items value)
                     | [item_type] \<Rightarrow> all_err (\<lambda>x. is_type_match x item_type) (seq_items value)
                     | _ \<Rightarrow> Inl ValueError)
           | O_dict \<Rightarrow>
               if \<not> inst value T_dict then Inr False
               else (case args of
                       [key_type, val_type] \<Rightarrow>
                         all_err (\<lambda>kv. case is_type_match (fst kv) key_type of
                                          Inl e \<Rightarrow> Inl e
                                        | Inr b \<Rightarrow> if b then is_type_match (snd kv) val_type
                                                   else Inr False)
                                 (dict_items value)
                     | _ \<Rightarrow>
                         all_err (\<lambda>kv. case is_type_match (fst kv) PAny of
                                          Inl e \<Rightarrow> Inl e
                                        | Inr b \<Rightarrow> if b then is_type_match (snd kv) PAny
                                                   else Inr False)
                                 (dict_items value))
           | O_tuple \<Rightarrow>
               if \<not> inst value T_tuple then Inr False
               else (case args of
                       [] \<Rightarrow> Inr (seq_items value = [])
                     | a # rest \<Rightarrow>
                         if last (a # rest) = PEllipsis
                         then all_err (\<lambda>x. is_type_match x a) (seq_items value)
                         else if length (a # rest) \<noteq> length (seq_items value) then Inr False
                         else all_err (\<lambda>p. is_type_match (fst p) (snd p))
                                (zip (seq_items value) (a # rest)))
           | O_UnionType \<Rightarrow> Inr True)
      | PType t \<Rightarrow> Inr (inst value t)
      | _ \<Rightarrow> Inr True)"
  by pat_completeness auto
termination
  apply (relation "measure (\<lambda>(v, t). size t)")
  apply (auto dest!: set_zip_rightD dest: pyobj_size_member)
  done

definition is_TypeError :: "pyerr \<Rightarrow> bool" where
  "is_TypeError e = (case e of TypeError t \<Rightarrow> True | _ \<Rightarrow> False)"

definition match_or_raise :: "pyobj \<Rightarrow> pyobj \<Rightarrow> pyerr + unit" where
  "match_or_raise value expected_type =
     (case is_type_match value expected_type of
        Inl e \<Rightarrow> Inl e
      | Inr b \<Rightarrow> if b then Inr () else Inl (TypeError Mismatch))"

text \<open>\<^verbatim>\<open>SchemaValidator.type_check(value, expected_type, key_path)\<close>: nothing to check
  against \<^verbatim>\<open>None\<close> or \<^verbatim>\<open>Any\<close>; a node is unwrapped; a tuple is read as a union of
  classes; a one-member set, list or dict instance is read as set-of, list-of and
  dict-of; everything else goes to \<^verbatim>\<open>is_type_match\<close>. The key path only feeds the
  error message.\<close>

function type_check :: "pyobj \<Rightarrow> pyobj \<Rightarrow> pyerr + unit" where
  "type_check v expected_type =
     (if expected_type = PNone \<or> expected_type = PAny then Inr ()
      else
        let value = to_native v in
        case expected_type of
          PTuple ts \<Rightarrow>
            (case py_isinstance_any value ts of
               Inl e \<Rightarrow> Inl e
             | Inr b \<Rightarrow> if b then Inr () else Inl (TypeError Mismatch))
        | PSet ms \<Rightarrow>
            (case ms of
               [inner_type] \<Rightarrow>
                 if \<not> inst value T_set then Inl (TypeError Mismatch)
                 else each_err (\<lambda>item. type_check item inner_type) (seq_items value)
             | _ \<Rightarrow> match_or_raise value expected_type)
        | PList ms \<Rightarrow>
            (case ms of
               [inner_type] \<Rightarrow>
                 if \<not> inst value T_list then Inl (TypeError Mismatch)
                 else each_err (\<lambda>item. type_check item inner_type) (seq_items value)
             | _ \<Rightarrow> match_or_raise value expected_type)
        | PDict items \<Rightarrow>
            (case items of
               [kv_type] \<Rightarrow>
                 if \<not> inst value T_dict then Inl (TypeError Mismatch)
                 else each_err (\<lambda>kv. case type_check (fst kv) (fst kv_type) of
                                         Inl e \<Rightarrow> Inl e
                                       | Inr u \<Rightarrow> type_check (snd kv) (snd kv_type))
                        (dict_items value)
             | _ \<Rightarrow> match_or_raise value expected_type)
        | PMeta c u s \<Rightarrow> Inl Unmodelled
        | _ \<Rightarrow> match_or_raise value expected_type)"
  by pat_completeness auto
termination
  apply (relation "measure (\<lambda>(v, t). size t)")
  apply auto
  done

section \<open>The validator (\<^verbatim>\<open>SchemaValidator\<close>)\<close>

text \<open>The first loop of \<^verbatim>\<open>validate_all\<close>: a key of the data that is not a key of the
  schema must be an instance of some declared key type: of a member of a tuple key, or
  of a class key. The loop over the declared keys stops at the first match.\<close>

fun key_type_matches :: "pyobj list \<Rightarrow> pyobj \<Rightarrow> pyerr + bool" where
  "key_type_matches [] k = Inr False"
| "key_type_matches (allowed_key_type # rest) k =
     (if inst allowed_key_type T_tuple
      then (case py_isinstance_any k (seq_items allowed_key_type) of
              Inl e \<Rightarrow> Inl e
            | Inr b \<Rightarrow> if b then Inr True else key_type_matches rest k)
      else (case allowed_key_type of
              PType t \<Rightarrow> if inst k t then Inr True else key_type_matches rest k
            | _ \<Rightarrow> key_type_matches rest k))"

fun check_allowed_keys :: "(pyobj \<times> pyobj) list \<Rightarrow> pyobj list \<Rightarrow> pyerr + unit" where
  "check_allowed_keys expected_type [] = Inr ()"
| "check_allowed_keys expected_type (k # ks) =
     (if dict_lookup expected_type k \<noteq> None then check_allowed_keys expected_type ks
      else (case key_type_matches (map fst expected_type) k of
              Inl e \<Rightarrow> Inl e
            | Inr matched \<Rightarrow>
                if matched then check_allowed_keys expected_type ks
                else Inl (TypeError KeyNotAllowed)))"

text \<open>The empty-container test of \<^verbatim>\<open>resolve_union_branch\<close>:
  \<^verbatim>\<open>origin is dict and isinstance(value, dict) and not value\<close>, and the same for
  \<^verbatim>\<open>list\<close> and \<^verbatim>\<open>set\<close>.\<close>

definition empty_match :: "pyobj \<Rightarrow> pyobj \<Rightarrow> bool" where
  "empty_match arg value =
     ((get_origin arg = Some O_dict \<and> inst value T_dict \<and> \<not> py_truthy value)
      \<or> (get_origin arg = Some O_list \<and> inst value T_list \<and> \<not> py_truthy value)
      \<or> (get_origin arg = Some O_set \<and> inst value T_set \<and> \<not> py_truthy value))"

text \<open>\<^verbatim>\<open>for c in args: try: f(c); return c; except TypeError: continue\<close>. An exception
  of another class leaves the loop.\<close>

fun first_valid :: "(pyobj \<Rightarrow> pyerr + unit) \<Rightarrow> pyobj list \<Rightarrow> pyerr + pyobj option" where
  "first_valid f [] = Inr None"
| "first_valid f (c # cs) =
     (case f c of
        Inr u \<Rightarrow> Inr (Some c)
      | Inl e \<Rightarrow> if is_TypeError e then first_valid f cs else Inl e)"

lemma first_valid_cong [fundef_cong]:
  "xs = ys \<Longrightarrow> (\<And>x. x \<in> set ys \<Longrightarrow> f x = g x) \<Longrightarrow> first_valid f xs = first_valid g ys"
  by (induction ys arbitrary: xs) (auto split: sum.splits)

text \<open>The first loop of \<^verbatim>\<open>resolve_union_branch\<close>. Its inner loop over all branches
  does not depend on the branch \<open>arg\<close> of the outer loop, so its outcome \<open>inner\<close> is
  computed once. When the inner loop finds nothing, \<^verbatim>\<open>type_check(value, arg)\<close> runs and
  the outer loop goes on to the next branch whether it raises \<^verbatim>\<open>TypeError\<close> or not.\<close>

fun union_first_pass :: "pyerr + pyobj option \<Rightarrow> pyobj \<Rightarrow> pyobj list \<Rightarrow> pyerr + pyobj option"
  where
  "union_first_pass inner value [] = Inr None"
| "union_first_pass inner value (arg # rest) =
     (if empty_match arg value then Inr (Some arg)
      else (case inner of
              Inl e \<Rightarrow> Inl e
            | Inr (Some curr_arg) \<Rightarrow> Inr (Some curr_arg)
            | Inr None \<Rightarrow>
                (case type_check value arg of
                   Inl e \<Rightarrow> if is_TypeError e then union_first_pass inner value rest else Inl e
                 | Inr u \<Rightarrow> union_first_pass inner value rest)))"

text \<open>\<^verbatim>\<open>resolve_schema_key(key, schema)\<close>.\<close>

fun class_key_lookup :: "(pyobj \<times> pyobj) list \<Rightarrow> pyobj \<Rightarrow> pyobj" where
  "class_key_lookup [] key = PNone"
| "class_key_lookup ((k_type, v_type) # rest) key =
     (case k_type of
        PType t \<Rightarrow> if inst key t then v_type else class_key_lookup rest key
      | _ \<Rightarrow> class_key_lookup rest key)"

definition resolve_schema_key :: "pyobj \<Rightarrow> pyobj \<Rightarrow> pyerr + pyobj" where
  "resolve_schema_key key schema =
     (case schema of
        PNone \<Rightarrow> Inr PNone
      | PGeneric g args \<Rightarrow> if g = O_dict \<and> length args = 2 then Inr (args ! 1) else Inr PNone
      | PDict items \<Rightarrow>
          if \<not> py_hashable key then Inl (TypeError Unhashable)
          else (case dict_lookup items key of
                  Some v \<Rightarrow> Inr v
                | None \<Rightarrow> Inr (class_key_lookup items key))
      | PMeta c v s \<Rightarrow> Inl Unmodelled
      | _ \<Rightarrow> Inr PNone)"

text \<open>The methods of \<^verbatim>\<open>SchemaValidator\<close> that call each other. \<open>validate_all schema data\<close>
  is \<^verbatim>\<open>SchemaValidator(schema).validate_all(data)\<close>. \<^verbatim>\<open>_validate_native\<close> is split in
  two: \<open>validate_native\<close> resolves a union and \<open>validate_native_at\<close> is the rest of the
  method, on the resolved type. \<^verbatim>\<open>resolve_union_branch\<close> returns one of the branches;
  the test \<open>branch \<in> set args\<close> states it for the termination proof and never fails
  (\<open>resolve_union_branch_member\<close> below). \<open>validate_recursive value expected_type\<close> is
  the method called with an expected type; the call without one is
  \<open>validate_recursive_at\<close> below. Inside the recursion an expected type \<^verbatim>\<open>None\<close>
  can only come from the arguments of a generic, where \<^verbatim>\<open>typing\<close> never puts it.
  \<^verbatim>\<open>validate_tuple\<close> returns \<^verbatim>\<open>None\<close>, \<^verbatim>\<open>validate_container\<close> the expected type
  and \<^verbatim>\<open>validate_scalar\<close> the matched type.\<close>

function validate_all :: "pyobj \<Rightarrow> pyobj \<Rightarrow> pyerr + unit"
  and validate_native :: "pyobj \<Rightarrow> pyobj \<Rightarrow> pyerr + unit"
  and validate_native_at :: "pyobj \<Rightarrow> pyobj \<Rightarrow> pyerr + unit"
  and resolve_union_branch :: "pyobj \<Rightarrow> pyobj \<Rightarrow> pyerr + pyobj"
  and validate_recursive :: "pyobj \<Rightarrow> pyobj \<Rightarrow> pyerr + pyobj"
  and validate_container :: "pyobj \<Rightarrow> pyobj \<Rightarrow> pyerr + pyobj"
  and validate_tuple :: "pyobj \<Rightarrow> pyobj \<Rightarrow> pyerr + pyobj"
  and validate_scalar :: "pyobj \<Rightarrow> pyobj \<Rightarrow> pyerr + pyobj"
  where
  "validate_all schema data =
     (if schema = PNone then Inr ()
      else (case (if inst schema T_dict \<and> inst data T_dict
                  then check_allowed_keys (dict_items schema) (map fst (dict_items data))
                  else Inr ()) of
              Inl e \<Rightarrow> Inl e
            | Inr u \<Rightarrow>
                if is_node data
                then (case validate_recursive data schema of Inl e \<Rightarrow> Inl e | Inr t \<Rightarrow> Inr ())
                else validate_native data schema))"
| "validate_native data expected_type =
     (case expected_type of
        PGeneric g args \<Rightarrow>
          if is_union_origin g
          then (case resolve_union_branch data expected_type of
                  Inl e \<Rightarrow> Inl e
                | Inr branch \<Rightarrow>
                    if branch \<in> set args then validate_native_at data branch
                    else Inl Unmodelled)
          else validate_native_at data expected_type
      | _ \<Rightarrow> validate_native_at data expected_type)"
| "validate_native_at data expected_type =
     (case expected_type of
        PGeneric g args \<Rightarrow>
          (case g of
             O_dict \<Rightarrow>
               (case args of
                  [key_type, val_type] \<Rightarrow>
                    if \<not> inst data T_dict then Inl AttributeError
                    else each_err (\<lambda>kv. case type_check (fst kv) key_type of
                                            Inl e \<Rightarrow> Inl e
                                          | Inr u \<Rightarrow> validate_native (snd kv) val_type)
                           (dict_items data)
                | _ \<Rightarrow> Inl ValueError)
           | O_list \<Rightarrow>
               (case args of
                  [item_type] \<Rightarrow>
                    (case py_iter data of
                       Inl e \<Rightarrow> Inl e
                     | Inr items \<Rightarrow> each_err (\<lambda>item. validate_native item item_type) items)
                | _ \<Rightarrow> Inl ValueError)
           | O_set \<Rightarrow>
               (case args of
                  [item_type] \<Rightarrow>
                    (case py_iter data of
                       Inl e \<Rightarrow> Inl e
                     | Inr items \<Rightarrow> each_err (\<lambda>item. validate_native item item_type) items)
                | _ \<Rightarrow> Inl ValueError)
           | _ \<Rightarrow> type_check data expected_type)
      | _ \<Rightarrow> type_check data expected_type)"
| "resolve_union_branch value union_type =
     (case union_type of
        PGeneric g args \<Rightarrow>
          if \<not> is_union_origin g then Inr union_type
          else (case union_first_pass (first_valid (\<lambda>curr_arg. validate_all curr_arg value) args)
                       value args of
                  Inl e \<Rightarrow> Inl e
                | Inr (Some arg) \<Rightarrow> Inr arg
                | Inr None \<Rightarrow>
                    (case first_valid (\<lambda>arg. if empty_match arg value then Inr ()
                                               else validate_all arg value) args of
                       Inl e \<Rightarrow> Inl e
                     | Inr (Some arg) \<Rightarrow> Inr arg
                     | Inr None \<Rightarrow> Inl (TypeError NoUnionMatch)))
      | _ \<Rightarrow> Inr union_type)"
| "validate_recursive value expected_type =
     (if expected_type = PNone then Inl Unmodelled
      else (case expected_type of
              PGeneric g args \<Rightarrow>
                if g = O_list \<or> g = O_set \<or> g = O_dict then validate_container value expected_type
                else if g = O_tuple then validate_tuple value expected_type
                else validate_scalar value expected_type
            | PList xs \<Rightarrow> validate_container value expected_type
            | PSet xs \<Rightarrow> validate_container value expected_type
            | PDict kvs \<Rightarrow> validate_container value expected_type
            | PMeta c v s \<Rightarrow> Inl Unmodelled
            | _ \<Rightarrow> validate_scalar value expected_type))"
| "validate_container value expected_type =
     (case type_check value expected_type of
        Inl e \<Rightarrow> Inl e
      | Inr u \<Rightarrow>
          (case expected_type of
             PGeneric g args \<Rightarrow>
               (case g of
                  O_dict \<Rightarrow>
                    (case args of
                       [key_type, val_type] \<Rightarrow>
                         (case each_err (\<lambda>kv. case validate_recursive (fst kv) key_type of
                                                  Inl e \<Rightarrow> Inl e
                                                | Inr t \<Rightarrow>
                                                    (case validate_recursive (snd kv) val_type of
                                                       Inl e \<Rightarrow> Inl e
                                                     | Inr t' \<Rightarrow> Inr ()))
                                 (dict_items value) of
                            Inl e \<Rightarrow> Inl e
                          | Inr u' \<Rightarrow> Inr expected_type)
                     | _ \<Rightarrow> if dict_items value = [] then Inr expected_type else Inl Unmodelled)
                | O_Union \<Rightarrow> Inr expected_type
                | O_UnionType \<Rightarrow> Inr expected_type
                | _ \<Rightarrow>
                    (case args of
                       [item_type] \<Rightarrow>
                         (case each_err (\<lambda>item. case validate_recursive item item_type of
                                                    Inl e \<Rightarrow> Inl e
                                                  | Inr t \<Rightarrow> Inr ())
                                 (seq_items value) of
                            Inl e \<Rightarrow> Inl e
                          | Inr u' \<Rightarrow> Inr expected_type)
                     | _ \<Rightarrow> Inl ValueError))
           | _ \<Rightarrow> Inr expected_type))"
| "validate_tuple value expected_type =
     (if \<not> inst value T_tuple then Inl (TypeError Mismatch)
      else (case get_args expected_type of
              [] \<Rightarrow> if seq_items value = [] then Inr PNone else Inl (TypeError Mismatch)
            | subtype # rest \<Rightarrow>
                if last (subtype # rest) = PEllipsis
                then (case each_err (\<lambda>item. case validate_recursive item subtype of
                                               Inl e \<Rightarrow> Inl e
                                             | Inr t \<Rightarrow> Inr ())
                            (seq_items value) of
                        Inl e \<Rightarrow> Inl e
                      | Inr u \<Rightarrow> Inr PNone)
                else if length (subtype # rest) \<noteq> length (seq_items value)
                then Inl (TypeError Mismatch)
                else (case each_err (\<lambda>p. case validate_recursive (fst p) (snd p) of
                                            Inl e \<Rightarrow> Inl e
                                          | Inr t \<Rightarrow> Inr ())
                            (zip (seq_items value) (subtype # rest)) of
                        Inl e \<Rightarrow> Inl e
                      | Inr u \<Rightarrow> Inr PNone)))"
| "validate_scalar value expected_type =
     (case (case expected_type of
              PGeneric g args \<Rightarrow>
                if is_union_origin g then resolve_union_branch value expected_type
                else Inr expected_type
            | _ \<Rightarrow> Inr expected_type) of
        Inl e \<Rightarrow> Inl e
      | Inr matched_type \<Rightarrow>
          (case type_check value matched_type of
             Inl e \<Rightarrow> Inl e
           | Inr u \<Rightarrow> Inr matched_type))"
  by pat_completeness auto
termination
  apply (relation "inv_image (less_than <*lex*> less_than)
     (\<lambda>x. case x of
        Inl (Inl (Inl (schema, data))) \<Rightarrow> (size schema, 6::nat)
      | Inl (Inl (Inr (data, t))) \<Rightarrow> (size t, 4)
      | Inl (Inr (Inl (data, t))) \<Rightarrow> (size t, 3)
      | Inl (Inr (Inr (v, t))) \<Rightarrow> (size t, 2)
      | Inr (Inl (Inl (v, t))) \<Rightarrow> (size t, 5)
      | Inr (Inl (Inr (v, t))) \<Rightarrow> (size t, 4)
      | Inr (Inr (Inl (v, t))) \<Rightarrow> (size t, 4)
      | Inr (Inr (Inr (v, t))) \<Rightarrow> (size t, 4))")
  apply (auto simp: get_args_def dest!: set_zip_rightD dest: pyobj_size_member
              split: pyobj.splits)
  done

section \<open>Nodes (\<^verbatim>\<open>meta_base\<close>, \<^verbatim>\<open>create_meta_node_class\<close>)\<close>

text \<open>\<^verbatim>\<open>set(container_data)\<close> on wrapped members: each member is hashed, and a member is
  kept unless an earlier one is the same key.\<close>

definition node_set_add :: "pyobj list \<Rightarrow> pyobj \<Rightarrow> pyobj list" where
  "node_set_add members x =
     (if list_ex (\<lambda>e. same_key e x) members then members else members @ [x])"

definition node_set_of :: "pyobj list \<Rightarrow> pyerr + pyobj list" where
  "node_set_of xs =
     (if list_all py_hashable xs then Inr (foldl node_set_add [] xs) else Inl (TypeError BadHash))"

text \<open>\<^verbatim>\<open>MetaContainer._coerce_key_type\<close> reads \<^verbatim>\<open>get_origin(self.schema)\<close>. The
  constructors assert that \<^verbatim>\<open>self.schema\<close> is a \<^verbatim>\<open>Schema\<close> object, whose origin is
  \<^verbatim>\<open>None\<close>, so the key comes back unchanged; the branch for a \<^verbatim>\<open>Dict\<close> origin is
  not embedded.\<close>

definition coerce_key_type :: "pyobj \<Rightarrow> pyobj \<Rightarrow> pyerr + pyobj" where
  "coerce_key_type self_schema key =
     (if get_origin self_schema = Some O_dict then Inl Unmodelled else Inr key)"

text \<open>\<^verbatim>\<open>MetaContainer.resolve_schema(key, value)\<close>, on \<open>schema_base = self.schema.schema\<close>.
  The node's validator is an object, hence true. The loop tests a class key, then a
  tuple key; an item is one or the other, so it is the loop \<open>resolve_by_type\<close> of
  \<^verbatim>\<open>resolve_from\<close>. The second loop of the source repeats the first and finds nothing
  new.\<close>

definition resolve_schema :: "pyobj \<Rightarrow> pyobj \<Rightarrow> pyerr + pyobj" where
  "resolve_schema self_schema key0 =
     (case coerce_key_type self_schema key0 of
        Inl e \<Rightarrow> Inl e
      | Inr key \<Rightarrow>
          (case (case self_schema of PSchema s v c \<Rightarrow> s | _ \<Rightarrow> self_schema) of
             PDict items \<Rightarrow>
               if \<not> py_hashable key then Inl (TypeError Unhashable)
               else (case dict_lookup items key of
                       Some v \<Rightarrow> Inr v
                     | None \<Rightarrow> (case resolve_by_type items key of
                                  Inl e \<Rightarrow> Inl e
                                | Inr None \<Rightarrow> Inr PNone
                                | Inr (Some v) \<Rightarrow> Inr v))
           | PGeneric g args \<Rightarrow>
               if g = O_dict then (if length args = 2 then Inr (args ! 1) else Inl ValueError)
               else Inr PNone
           | PMeta c v s \<Rightarrow> Inl Unmodelled
           | _ \<Rightarrow> Inr PNone))"

text \<open>\<^verbatim>\<open>validate_recursive(key_path, value)\<close> called without an expected type: the type
  is looked up with \<^verbatim>\<open>resolve_schema_key\<close>. When that gives \<^verbatim>\<open>None\<close> the method goes
  to \<^verbatim>\<open>validate_scalar\<close>, where \<^verbatim>\<open>type_check\<close> against \<^verbatim>\<open>None\<close> passes, and
  returns \<^verbatim>\<open>None\<close>.\<close>

definition validate_recursive_at :: "pyobj \<Rightarrow> pyobj \<Rightarrow> pyobj \<Rightarrow> pyerr + pyobj" where
  "validate_recursive_at self_schema key_path value =
     (case resolve_schema_key key_path self_schema of
        Inl e \<Rightarrow> Inl e
      | Inr t \<Rightarrow> if t = PNone then Inr PNone else validate_recursive value t)"

text \<open>\<^verbatim>\<open>MetaNodeMixin.__init__\<close>, which the scalar classes other than \<^verbatim>\<open>MetaBool\<close>
  inherit: the new node is validated by \<^verbatim>\<open>SchemaValidator(self.schema)\<close>, whose schema
  is the \<^verbatim>\<open>Schema\<close> object itself, and any exception is raised again as
  \<^verbatim>\<open>TypeError\<close>.\<close>

definition MetaNodeMixin_init :: "pyobj \<Rightarrow> pyerr + pyobj" where
  "MetaNodeMixin_init self =
     (case self of
        PMeta c v schema \<Rightarrow>
          if schema = PNone then Inr self
          else (case validate_all schema self of
                  Inl Unmodelled \<Rightarrow> Inl Unmodelled
                | Inl e \<Rightarrow> Inl (TypeError Mismatch)
                | Inr u \<Rightarrow> Inr self)
      | _ \<Rightarrow> Inr self)"

text \<open>\<^verbatim>\<open>MetaBool(value, schema)\<close>: the check before instantiation is
  \<^verbatim>\<open>type_check(value, schema)\<close> against the \<^verbatim>\<open>Schema\<close> object.\<close>

definition MetaBool_new :: "pyobj \<Rightarrow> pyobj \<Rightarrow> pyerr + pyobj" where
  "MetaBool_new value schema =
     (case (if schema \<noteq> PNone then type_check value schema else Inr ()) of
        Inl e \<Rightarrow> Inl e
      | Inr u \<Rightarrow> Inr (PMeta MetaBool (PBool (py_truthy value)) schema))"

text \<open>\<^verbatim>\<open>MetaInt\<close>, \<^verbatim>\<open>MetaFloat\<close>, \<^verbatim>\<open>MetaStr\<close>: \<^verbatim>\<open>MetaScalar.__new__\<close> asserts a
  \<^verbatim>\<open>Schema\<close>, builds its validator and runs
  \<^verbatim>\<open>validator.type_check(value, schema.schema)\<close>, a no-op for \<^verbatim>\<open>NoOpValidator\<close>.\<close>

definition MetaScalar_new :: "metacls \<Rightarrow> pyobj \<Rightarrow> pyobj \<Rightarrow> pyerr + pyobj" where
  "MetaScalar_new cls value schema =
     (case schema of
        PSchema s validate vc \<Rightarrow>
          (case build_validator schema of
             Inl e \<Rightarrow> Inl e
           | Inr validator \<Rightarrow>
               (case (case validator of
                        NoOpValidator \<Rightarrow> Inr ()
                      | SchemaValidator vs \<Rightarrow> type_check value s) of
                  Inl e \<Rightarrow> Inl e
                | Inr u \<Rightarrow> MetaNodeMixin_init (PMeta cls value schema)))
      | _ \<Rightarrow> Inl AssertionError)"

text \<open>\<^verbatim>\<open>MetaNone(data, schema=...)\<close>: \<^verbatim>\<open>MetaNodeMixin.__new__\<close> is reached without the
  keyword, so the node's \<^verbatim>\<open>schema\<close> is \<^verbatim>\<open>None\<close> and nothing is validated.\<close>

definition MetaNone_new :: "pyobj \<Rightarrow> pyobj \<Rightarrow> pyerr + pyobj" where
  "MetaNone_new value schema = Inr (PMeta MetaNone PNone PNone)"

text \<open>\<^verbatim>\<open>MetaDict(data, schema)\<close>. For each item the constructor resolves the value's schema
  (which can raise) and stores the value through \<^verbatim>\<open>__setitem__\<close>, which resolves it
  once more and stores with \<^verbatim>\<open>dict.__setitem__\<close>. The members are nodes already when
  \<^verbatim>\<open>wrap_meta_structure\<close> builds the node; a raw member would be wrapped here, which is
  not embedded.\<close>

fun MetaDict_fill :: "pyobj \<Rightarrow> (pyobj \<times> pyobj) list \<Rightarrow> (pyobj \<times> pyobj) list
    \<Rightarrow> pyerr + (pyobj \<times> pyobj) list" where
  "MetaDict_fill schema [] self = Inr self"
| "MetaDict_fill schema ((k, v) # rest) self =
     (case coerce_key_type schema k of
        Inl e \<Rightarrow> Inl e
      | Inr coerced_k \<Rightarrow>
          (case resolve_schema schema coerced_k of
             Inl e \<Rightarrow> Inl e
           | Inr raw \<Rightarrow>
               (case Schema_ensure raw of
                  Inl e \<Rightarrow> Inl e
                | Inr resolved \<Rightarrow>
                    if \<not> is_node v then Inl Unmodelled
                    else MetaDict_fill schema rest (dict_store self coerced_k v))))"

definition MetaDict_new :: "(pyobj \<times> pyobj) list \<Rightarrow> pyobj \<Rightarrow> pyerr + pyobj" where
  "MetaDict_new data schema =
     (if \<not> is_Schema schema then Inl AssertionError
      else (case MetaDict_fill schema data [] of
              Inl e \<Rightarrow> Inl e
            | Inr self \<Rightarrow> Inr (PMeta MetaDict (PDict self) schema)))"

text \<open>\<^verbatim>\<open>MetaList(data, schema)\<close>: each member's schema is asked from
  \<^verbatim>\<open>self.validator.validate_recursive(None, item)\<close>, the validator being
  \<^verbatim>\<open>SchemaValidator(schema)\<close> on the \<^verbatim>\<open>Schema\<close> object, and the member is appended.\<close>

fun MetaList_fill :: "pyobj \<Rightarrow> pyobj list \<Rightarrow> pyobj list \<Rightarrow> pyerr + pyobj list" where
  "MetaList_fill schema [] self = Inr self"
| "MetaList_fill schema (item # rest) self =
     (case validate_recursive_at schema PNone item of
        Inl e \<Rightarrow> Inl e
      | Inr raw \<Rightarrow>
          (case Schema_ensure raw of
             Inl e \<Rightarrow> Inl e
           | Inr resolved_schema \<Rightarrow>
               if \<not> is_node item then Inl Unmodelled
               else MetaList_fill schema rest (self @ [item])))"

definition MetaList_new :: "pyobj list \<Rightarrow> pyobj \<Rightarrow> pyerr + pyobj" where
  "MetaList_new data schema =
     (if \<not> is_Schema schema then Inl AssertionError
      else (case MetaList_fill schema data [] of
              Inl e \<Rightarrow> Inl e
            | Inr self \<Rightarrow> Inr (PMeta MetaList (PList self) schema)))"

text \<open>\<^verbatim>\<open>MetaSet(data, schema)\<close>: each member goes through \<^verbatim>\<open>self.add\<close>, which asks
  \<^verbatim>\<open>resolve_schema(val, val)\<close> and re-tags the member with the result when it is not
  \<^verbatim>\<open>None\<close>. It is \<^verbatim>\<open>None\<close> unless the set's own schema is a dict; that case, a set
  wrapped against a map schema, is not embedded.\<close>

definition MetaSet_new :: "pyobj list \<Rightarrow> pyobj \<Rightarrow> pyerr + pyobj" where
  "MetaSet_new data schema =
     (case schema of
        PSchema s validate vc \<Rightarrow>
          if list_ex (\<lambda>item. \<not> is_node item) data then Inl Unmodelled
          else if data \<noteq> [] \<and> (inst s T_dict \<or> get_origin s = Some O_dict) then Inl Unmodelled
          else Inr (PMeta MetaSet (PSet (foldl node_set_add [] data)) schema)
      | _ \<Rightarrow> Inl AssertionError)"

text \<open>\<^verbatim>\<open>MetaTuple(data, schema)\<close>, built in \<^verbatim>\<open>__new__\<close>: the item schemas are read with
  \<^verbatim>\<open>get_args(schema)\<close> from the \<^verbatim>\<open>Schema\<close> object the line above asserts, and the
  members are \<^verbatim>\<open>zip(data, args)\<close>.\<close>

definition MetaTuple_new :: "pyobj list \<Rightarrow> pyobj \<Rightarrow> pyerr + pyobj" where
  "MetaTuple_new data schema =
     (if \<not> is_Schema schema then Inl AssertionError
      else
        let args = (if py_truthy schema then get_args schema else []) in
        if args \<noteq> [] \<and> last args = PEllipsis
        then (if list_all is_node data then Inr (PMeta MetaTuple (PTuple data) schema)
              else Inl Unmodelled)
        else (if list_all is_node (map fst (zip data args))
              then Inr (PMeta MetaTuple (PTuple (map fst (zip data args))) schema)
              else Inl Unmodelled))"

section \<open>Wrapping (\<^verbatim>\<open>wrap_meta_structure\<close>)\<close>

definition is_digit_str :: "string \<Rightarrow> bool" where
  "is_digit_str s = (s \<noteq> [] \<and> list_all (\<lambda>c. CHR ''0'' \<le> c \<and> c \<le> CHR ''9'') s)"

definition digits_value :: "string \<Rightarrow> int" where
  "digits_value s = foldl (\<lambda>acc c. 10 * acc + (int (of_char c) - 48)) 0 s"

text \<open>\<^verbatim>\<open>meta_core.coerce_dict_keys(data, schema)\<close>, the definition that shadows the one
  imported from \<^verbatim>\<open>helpers\<close>. It acts only when the schema is a subscripted
  \<^verbatim>\<open>Dict[K, V]\<close>; a normalized schema is a dict instance, for which the data comes back
  unchanged.\<close>

fun coerce_dict_keys :: "pyobj \<Rightarrow> pyobj \<Rightarrow> pyerr + pyobj"
  and coerce_dict_items :: "(pyobj \<times> pyobj) list \<Rightarrow> pyobj \<Rightarrow> pyobj \<Rightarrow> (pyobj \<times> pyobj) list
    \<Rightarrow> pyerr + (pyobj \<times> pyobj) list" where
  "coerce_dict_keys data (PGeneric O_dict [key_type, value_type]) =
     (case coerce_dict_items (dict_items data) key_type value_type [] of
        Inl e \<Rightarrow> Inl e
      | Inr coerced \<Rightarrow> Inr (PDict coerced))"
| "coerce_dict_keys data schema = Inr data"
| "coerce_dict_items [] key_type value_type coerced = Inr coerced"
| "coerce_dict_items ((k, v) # rest) key_type value_type coerced =
     (case (if key_type = PType T_int \<and> inst k T_str
            then (case to_native k of
                    PStr s \<Rightarrow> if is_digit_str s then Inr (PInt (digits_value s)) else Inr k
                  | _ \<Rightarrow> Inr k)
            else if key_type = PType T_float \<and> inst k T_str then Inl Unmodelled
            else Inr k) of
        Inl e \<Rightarrow> Inl e
      | Inr coerced_k \<Rightarrow>
          (case (if inst v T_dict then coerce_dict_keys v value_type else Inr v) of
             Inl e \<Rightarrow> Inl e
           | Inr coerced_v \<Rightarrow>
               coerce_dict_items rest key_type value_type (dict_store coerced coerced_k coerced_v)))"

text \<open>\<^verbatim>\<open>Schema.coerce_key(key)\<close> also acts only on a subscripted \<^verbatim>\<open>Dict[K, V]\<close>, where it
  calls the key type on the key; that call is not embedded here.\<close>

definition coerce_key :: "pyobj \<Rightarrow> pyobj \<Rightarrow> pyerr + pyobj" where
  "coerce_key self key =
     (case self of
        PSchema schema validate vc \<Rightarrow>
          if get_origin schema = Some O_dict \<and> length (get_args schema) = 2 then Inl Unmodelled
          else Inr key
      | _ \<Rightarrow> Inl AttributeError)"

text \<open>\<^verbatim>\<open>validator = schema_obj.build_validator(); if validator: validator.validate_all(node)\<close>.\<close>

definition validate_node :: "pyobj \<Rightarrow> pyobj \<Rightarrow> pyerr + pyobj" where
  "validate_node schema_obj node =
     (case build_validator schema_obj of
        Inl e \<Rightarrow> Inl e
      | Inr NoOpValidator \<Rightarrow> Inr node
      | Inr (SchemaValidator s) \<Rightarrow>
          (case validate_all s node of Inl e \<Rightarrow> Inl e | Inr u \<Rightarrow> Inr node))"

text \<open>\<^verbatim>\<open>wrap_meta_structure(data, schema)\<close>, called without keyword options. A node is
  returned as it is, re-tagged with the schema when one is given. Otherwise the first
  entry of \<^verbatim>\<open>META_TYPE_MAP\<close> whose class the data is an instance of decides: \<^verbatim>\<open>bool\<close>
  comes before \<^verbatim>\<open>int\<close>. The members of a list, set or tuple are all wrapped against
  \<^verbatim>\<open>schema_obj(data)\<close>, that is \<^verbatim>\<open>resolve_from(None, data, 0)\<close>. A subscripted
  \<^verbatim>\<open>Dict\<close> held by a \<^verbatim>\<open>Schema\<close> object, for which \<^verbatim>\<open>coerce_dict_keys\<close> rebuilds the
  data, does not arise from the \<^verbatim>\<open>Schema\<close> constructor and is not embedded.\<close>

function wrap_meta_structure :: "pyobj \<Rightarrow> pyobj \<Rightarrow> pyerr + pyobj"
  and wrap_each :: "pyobj list \<Rightarrow> pyobj \<Rightarrow> pyerr + pyobj list"
  and wrap_items :: "(pyobj \<times> pyobj) list \<Rightarrow> pyobj \<Rightarrow> (pyobj \<times> pyobj) list
    \<Rightarrow> pyerr + (pyobj \<times> pyobj) list" where
  "wrap_meta_structure data schema =
     (case data of
        PMeta c v s \<Rightarrow>
          if schema = PNone then Inr data
          else (case (if is_Schema schema then Inr schema
                      else Schema_init schema None SchemaValidator_cls) of
                  Inl e \<Rightarrow> Inl e
                | Inr schema_obj \<Rightarrow> Inr (PMeta c v schema_obj))
      | _ \<Rightarrow>
          (case (if is_Schema schema then Inr schema
                 else Schema_init schema None SchemaValidator_cls) of
             Inl e \<Rightarrow> Inl e
           | Inr schema_obj \<Rightarrow>
               (case data of
                  PBool b \<Rightarrow>
                    (case MetaBool_new data schema_obj of
                       Inl e \<Rightarrow> Inl e | Inr node \<Rightarrow> validate_node schema_obj node)
                | PInt i \<Rightarrow>
                    (case MetaScalar_new MetaInt data schema_obj of
                       Inl e \<Rightarrow> Inl e | Inr node \<Rightarrow> validate_node schema_obj node)
                | PFloat r \<Rightarrow>
                    (case MetaScalar_new MetaFloat data schema_obj of
                       Inl e \<Rightarrow> Inl e | Inr node \<Rightarrow> validate_node schema_obj node)
                | PStr s \<Rightarrow>
                    (case MetaScalar_new MetaStr data schema_obj of
                       Inl e \<Rightarrow> Inl e | Inr node \<Rightarrow> validate_node schema_obj node)
                | PDict kvs \<Rightarrow>
                    (case coerce_dict_keys data (case schema_obj of PSchema s v c \<Rightarrow> s | _ \<Rightarrow> PNone) of
                       Inl e \<Rightarrow> Inl e
                     | Inr raw_data \<Rightarrow>
                         if raw_data \<noteq> data then Inl Unmodelled
                         else (case wrap_items kvs schema_obj [] of
                                 Inl e \<Rightarrow> Inl e
                               | Inr wrapped \<Rightarrow>
                                   (case MetaDict_new wrapped schema_obj of
                                      Inl e \<Rightarrow> Inl e
                                    | Inr node \<Rightarrow> validate_node schema_obj node)))
                | PList xs \<Rightarrow>
                    (case resolve_from schema_obj PNone 0 of
                       Inl e \<Rightarrow> Inl e
                     | Inr sub_schema \<Rightarrow>
                         (case wrap_each xs sub_schema of
                            Inl e \<Rightarrow> Inl e
                          | Inr container_data \<Rightarrow>
                              (case MetaList_new container_data schema_obj of
                                 Inl e \<Rightarrow> Inl e
                               | Inr node \<Rightarrow> validate_node schema_obj node)))
                | PTuple xs \<Rightarrow>
                    (case resolve_from schema_obj PNone 0 of
                       Inl e \<Rightarrow> Inl e
                     | Inr sub_schema \<Rightarrow>
                         (case wrap_each xs sub_schema of
                            Inl e \<Rightarrow> Inl e
                          | Inr container_data \<Rightarrow>
                              (case MetaTuple_new container_data schema_obj of
                                 Inl e \<Rightarrow> Inl e
                               | Inr node \<Rightarrow> validate_node schema_obj node)))
                | PSet xs \<Rightarrow>
                    (case resolve_from schema_obj PNone 0 of
                       Inl e \<Rightarrow> Inl e
                     | Inr sub_schema \<Rightarrow>
                         (case wrap_each xs sub_schema of
                            Inl e \<Rightarrow> Inl e
                          | Inr container_data \<Rightarrow>
                              (case node_set_of container_data of
                                 Inl e \<Rightarrow> Inl e
                               | Inr members \<Rightarrow>
                                   (case MetaSet_new members schema_obj of
                                      Inl e \<Rightarrow> Inl e
                                    | Inr node \<Rightarrow> validate_node schema_obj node))))
                | PNone \<Rightarrow>
                    (case MetaNone_new data schema_obj of
                       Inl e \<Rightarrow> Inl e | Inr node \<Rightarrow> validate_node schema_obj node)
                | _ \<Rightarrow> Inl (TypeError UnsupportedType))))"
| "wrap_each [] sub_schema = Inr []"
| "wrap_each (i # rest) sub_schema =
     (case wrap_meta_structure i sub_schema of
        Inl e \<Rightarrow> Inl e
      | Inr node \<Rightarrow>
          (case wrap_each rest sub_schema of Inl e \<Rightarrow> Inl e | Inr nodes \<Rightarrow> Inr (node # nodes)))"
| "wrap_items [] schema_obj wrapped = Inr wrapped"
| "wrap_items ((k, v) # rest) schema_obj wrapped =
     (case coerce_key schema_obj k of
        Inl e \<Rightarrow> Inl e
      | Inr coerced_k \<Rightarrow>
          (case resolve_from schema_obj coerced_k 0 of
             Inl e \<Rightarrow> Inl e
           | Inr sub_schema \<Rightarrow>
               (case wrap_meta_structure v sub_schema of
                  Inl e \<Rightarrow> Inl e
                | Inr node \<Rightarrow> wrap_items rest schema_obj (dict_store wrapped coerced_k node))))"
  by pat_completeness auto
termination
  apply (relation "measure (\<lambda>x. case x of
        Inl (data, schema) \<Rightarrow> size data
      | Inr (Inl (items, sub_schema)) \<Rightarrow> size_list size items
      | Inr (Inr (kvs, schema_obj, wrapped)) \<Rightarrow> size_list (size_prod size size) kvs)")
  apply auto
  done

section \<open>Coercion of raw data (\<^verbatim>\<open>helpers.normalize_data\<close>) and the \<^verbatim>\<open>Meta\<close> facade\<close>

text \<open>\<^verbatim>\<open>int(s)\<close> on a string: surrounding whitespace is dropped, a sign is allowed, and
  the digits may be grouped by single underscores.\<close>

definition is_space :: "char \<Rightarrow> bool" where
  "is_space c = (c \<in> set [CHR 0x20, CHR 0x09, CHR 0x0A, CHR 0x0B, CHR 0x0C, CHR 0x0D])"

definition strip :: "string \<Rightarrow> string" where
  "strip s = rev (dropWhile is_space (rev (dropWhile is_space s)))"

fun grouped_digits :: "string \<Rightarrow> bool" where
  "grouped_digits [] = False"
| "grouped_digits [c] = (CHR ''0'' \<le> c \<and> c \<le> CHR ''9'')"
| "grouped_digits (c # d # rest) =
     (CHR ''0'' \<le> c \<and> c \<le> CHR ''9''
      \<and> (if d = CHR ''_'' then grouped_digits rest else grouped_digits (d # rest)))"

definition int_of_str :: "string \<Rightarrow> pyerr + int" where
  "int_of_str s =
     (let t = strip s;
          neg = (t \<noteq> [] \<and> hd t = CHR ''-'');
          body = (if t \<noteq> [] \<and> (hd t = CHR ''-'' \<or> hd t = CHR ''+'') then tl t else t)
      in if grouped_digits body
         then Inr ((if neg then - 1 else 1) * digits_value (filter (\<lambda>c. c \<noteq> CHR ''_'') body))
         else Inl ValueError)"

text \<open>\<^verbatim>\<open>t(x)\<close>, a builtin class called on one argument. Conversions that depend on the
  binary representation of floats or on the printed form of arbitrary objects are
  outside the fragment.\<close>

definition py_call1 :: "tyname \<Rightarrow> pyobj \<Rightarrow> pyerr + pyobj" where
  "py_call1 t x =
     (case t of
        T_int \<Rightarrow>
          (case x of
             PBool b \<Rightarrow> Inr (PInt (if b then 1 else 0))
           | PInt i \<Rightarrow> Inr (PInt i)
           | PFloat r \<Rightarrow> Inr (PInt (if 0 \<le> r then \<lfloor>r\<rfloor> else \<lceil>r\<rceil>))
           | PStr s \<Rightarrow> (case int_of_str s of Inl e \<Rightarrow> Inl e | Inr i \<Rightarrow> Inr (PInt i))
           | PMeta c v s \<Rightarrow> Inl Unmodelled
           | _ \<Rightarrow> Inl (TypeError Mismatch))
      | T_float \<Rightarrow>
          (case x of
             PBool b \<Rightarrow> Inr (PFloat (if b then 1 else 0))
           | PInt i \<Rightarrow> if \<bar>i\<bar> \<le> 2 ^ 53 then Inr (PFloat (of_int i)) else Inl Unmodelled
           | PFloat r \<Rightarrow> Inr (PFloat r)
           | PStr s \<Rightarrow> Inl Unmodelled
           | PMeta c v s \<Rightarrow> Inl Unmodelled
           | _ \<Rightarrow> Inl (TypeError Mismatch))
      | T_str \<Rightarrow> (case py_str x of Inl e \<Rightarrow> Inl e | Inr s \<Rightarrow> Inr (PStr s))
      | T_bool \<Rightarrow> Inr (PBool (py_truthy x))
      | T_NoneType \<Rightarrow> Inl (TypeError NotCallable)
      | T_list \<Rightarrow> (case py_iter x of Inl e \<Rightarrow> Inl e | Inr xs \<Rightarrow> Inr (PList xs))
      | T_tuple \<Rightarrow> (case py_iter x of Inl e \<Rightarrow> Inl e | Inr xs \<Rightarrow> Inr (PTuple xs))
      | T_set \<Rightarrow>
          (case py_iter x of
             Inl e \<Rightarrow> Inl e
           | Inr xs \<Rightarrow> if list_all py_hashable xs then Inr (PSet (set_of xs))
                       else Inl (TypeError Unhashable))
      | T_dict \<Rightarrow>
          (case x of
             PDict kvs \<Rightarrow> Inr (PDict kvs)
           | PList [] \<Rightarrow> Inr (PDict [])
           | PTuple [] \<Rightarrow> Inr (PDict [])
           | PSet [] \<Rightarrow> Inr (PDict [])
           | PStr [] \<Rightarrow> Inr (PDict [])
           | PNone \<Rightarrow> Inl (TypeError Mismatch)
           | PBool b \<Rightarrow> Inl (TypeError Mismatch)
           | PInt i \<Rightarrow> Inl (TypeError Mismatch)
           | PFloat r \<Rightarrow> Inl (TypeError Mismatch)
           | _ \<Rightarrow> Inl Unmodelled))"

text \<open>\<^verbatim>\<open>coerce_key_to_type(key, key_type)\<close>: \<^verbatim>\<open>key_type(key)\<close>, and the key itself on
  any exception. Calling \<^verbatim>\<open>Any\<close>, a subscripted generic or an object that is not
  callable raises \<^verbatim>\<open>TypeError\<close>.\<close>

definition coerce_key_to_type :: "pyobj \<Rightarrow> pyobj \<Rightarrow> pyerr + pyobj" where
  "coerce_key_to_type key key_type =
     (case key_type of
        PType t \<Rightarrow>
          (case py_call1 t key of
             Inl Unmodelled \<Rightarrow> Inl Unmodelled
           | Inl e \<Rightarrow> Inr key
           | Inr v \<Rightarrow> Inr v)
      | PMeta c v s \<Rightarrow> Inl Unmodelled
      | PSchema r v c \<Rightarrow> Inl Unmodelled
      | _ \<Rightarrow> Inr key)"

fun map_err :: "('a \<Rightarrow> pyerr + 'b) \<Rightarrow> 'a list \<Rightarrow> pyerr + 'b list" where
  "map_err f [] = Inr []"
| "map_err f (x # xs) =
     (case f x of
        Inl e \<Rightarrow> Inl e
      | Inr y \<Rightarrow> (case map_err f xs of Inl e \<Rightarrow> Inl e | Inr ys \<Rightarrow> Inr (y # ys)))"

lemma map_err_cong [fundef_cong]:
  "xs = ys \<Longrightarrow> (\<And>x. x \<in> set ys \<Longrightarrow> f x = g x) \<Longrightarrow> map_err f xs = map_err g ys"
  by (induction ys arbitrary: xs) (auto split: sum.splits)

lemma pyobj_size_value:
  "(k, v) \<in> set kvs \<Longrightarrow> size (v::pyobj) < Suc (size_list (size_prod size size) kvs)"
  by (induction kvs) force+

text \<open>A dict built by successive stores \<^verbatim>\<open>d[k] = v\<close>, and a set built from computed
  members: each key or member is hashed.\<close>

definition build_dict :: "(pyobj \<times> pyobj) list \<Rightarrow> pyerr + pyobj" where
  "build_dict kvs =
     (if list_all py_hashable (map fst kvs) then Inr (PDict (dict_of kvs))
      else Inl (TypeError Unhashable))"

definition build_set :: "pyobj list \<Rightarrow> pyerr + pyobj" where
  "build_set xs =
     (if list_all py_hashable xs then Inr (PSet (set_of xs)) else Inl (TypeError Unhashable))"

text \<open>The loop of \<^verbatim>\<open>normalize_data\<close> over the items of an explicit schema, for one key
  \<open>k\<close> of the data: it carries \<open>coerced_key\<close> and \<open>matched_schema\<close>. An equal key or
  a class key whose call on \<open>k\<close> gives an instance of it ends the loop. For a tuple of
  classes the \<^verbatim>\<open>break\<close> only leaves the loop over the members, so the search goes on
  with the next item.\<close>

fun coerce_by_members :: "pyobj list \<Rightarrow> pyobj \<Rightarrow> pyerr + pyobj option" where
  "coerce_by_members [] k = Inr None"
| "coerce_by_members (t # ts) k =
     (case coerce_key_to_type k t of
        Inl e \<Rightarrow> Inl e
      | Inr coerced \<Rightarrow>
          (case t of
             PType ty \<Rightarrow> if inst coerced ty then Inr (Some coerced) else coerce_by_members ts k
           | _ \<Rightarrow> coerce_by_members ts k))"

fun match_entry :: "(pyobj \<times> pyobj) list \<Rightarrow> pyobj \<Rightarrow> pyobj \<times> pyobj \<Rightarrow> pyerr + pyobj \<times> pyobj"
  where
  "match_entry [] k found = Inr found"
| "match_entry ((sk, sv) # rest) k found =
     (if py_eq sk k then Inr (fst found, sv)
      else (case sk of
              PType ty \<Rightarrow>
                (case coerce_key_to_type k sk of
                   Inl e \<Rightarrow> Inl e
                 | Inr coerced \<Rightarrow>
                     if inst coerced ty then Inr (coerced, sv) else match_entry rest k found)
            | PTuple ts \<Rightarrow>
                if list_all is_type ts
                then (case coerce_by_members ts k of
                        Inl e \<Rightarrow> Inl e
                      | Inr None \<Rightarrow> match_entry rest k found
                      | Inr (Some coerced) \<Rightarrow> match_entry rest k (coerced, sv))
                else match_entry rest k found
            | _ \<Rightarrow> match_entry rest k found))"

text \<open>\<^verbatim>\<open>normalize_data(data, schema)\<close>. The branches are tried in the source's order: the
  generics of \<^verbatim>\<open>typing\<close>, an explicit dict schema on dict data, a one-member set or
  list schema, a tuple schema, a class (called on the data, the data itself on any
  exception); a schema that fits no branch returns the data unchanged. The schema found
  by \<open>match_entry\<close> is one of the explicit schema's values or \<^verbatim>\<open>Any\<close>
  (\<open>match_entry_schema\<close> below); the test in the dict-instance branch states that for
  the termination proof.\<close>

function normalize_data :: "pyobj \<Rightarrow> pyobj \<Rightarrow> pyerr + pyobj" where
  "normalize_data data schema =
     (case schema of
        PGeneric g args \<Rightarrow>
          (case g of
             O_dict \<Rightarrow>
               if inst data T_dict
               then (case map_err (\<lambda>kv. case coerce_key_to_type (fst kv)
                                                (if length args = 2 then args ! 0 else PAny) of
                                          Inl e \<Rightarrow> Inl e
                                        | Inr coerced_key \<Rightarrow>
                                            (case normalize_data (snd kv)
                                                    (if length args = 2 then args ! 1 else PAny) of
                                               Inl e \<Rightarrow> Inl e
                                             | Inr nv \<Rightarrow>
                                                 if py_hashable coerced_key then Inr (coerced_key, nv)
                                                 else Inl (TypeError Unhashable)))
                            (dict_items data) of
                       Inl e \<Rightarrow> Inl e
                     | Inr result \<Rightarrow> Inr (PDict (dict_of result)))
               else Inr data
           | O_set \<Rightarrow>
               if inst data T_list \<or> inst data T_set
               then (case map_err (\<lambda>i. case normalize_data i (case args of [] \<Rightarrow> PAny | a # rest \<Rightarrow> a) of
                                         Inl e \<Rightarrow> Inl e
                                       | Inr n \<Rightarrow> if py_hashable n then Inr n
                                                  else Inl (TypeError Unhashable))
                            (seq_items data) of
                       Inl e \<Rightarrow> Inl e
                     | Inr ns \<Rightarrow> Inr (PSet (set_of ns)))
               else Inl (TypeError Mismatch)
           | O_list \<Rightarrow>
               if \<not> inst data T_list then Inl (TypeError Mismatch)
               else (case map_err (\<lambda>i. normalize_data i (case args of [] \<Rightarrow> PAny | a # rest \<Rightarrow> a))
                            (seq_items data) of
                       Inl e \<Rightarrow> Inl e
                     | Inr ns \<Rightarrow> Inr (PList ns))
           | O_tuple \<Rightarrow>
               if \<not> (inst data T_list \<or> inst data T_tuple) then Inl (TypeError Mismatch)
               else (case args of
                       [] \<Rightarrow> Inr (PTuple [])
                     | a # rest \<Rightarrow>
                         if last (a # rest) = PEllipsis
                         then (case map_err (\<lambda>i. normalize_data i a) (seq_items data) of
                                 Inl e \<Rightarrow> Inl e
                               | Inr ns \<Rightarrow> Inr (PTuple ns))
                         else (case map_err (\<lambda>p. normalize_data (fst p) (snd p))
                                      (zip (seq_items data) (a # rest)) of
                                 Inl e \<Rightarrow> Inl e
                               | Inr ns \<Rightarrow> Inr (PTuple ns)))
           | _ \<Rightarrow> Inr data)
      | PDict items \<Rightarrow>
          if inst data T_dict
          then (case map_err (\<lambda>kv. case match_entry items (fst kv) (fst kv, PAny) of
                                      Inl e \<Rightarrow> Inl e
                                    | Inr found \<Rightarrow>
                                        if snd found = PAny \<or> snd found \<in> snd ` set items
                                        then (case normalize_data (snd kv) (snd found) of
                                                Inl e \<Rightarrow> Inl e
                                              | Inr nv \<Rightarrow>
                                                  if py_hashable (fst found) then Inr (fst found, nv)
                                                  else Inl (TypeError Unhashable))
                                        else Inl Unmodelled)
                       (dict_items data) of
                  Inl e \<Rightarrow> Inl e
                | Inr normalized \<Rightarrow> Inr (PDict (dict_of normalized)))
          else Inr data
      | PSet ms \<Rightarrow>
          (case ms of
             [item_type] \<Rightarrow>
               if inst data T_list \<or> inst data T_set
               then (case map_err (\<lambda>i. case normalize_data i item_type of
                                         Inl e \<Rightarrow> Inl e
                                       | Inr n \<Rightarrow> if py_hashable n then Inr n
                                                  else Inl (TypeError Unhashable))
                            (seq_items data) of
                       Inl e \<Rightarrow> Inl e
                     | Inr ns \<Rightarrow> Inr (PSet (set_of ns)))
               else Inl (TypeError Mismatch)
           | _ \<Rightarrow> Inr data)
      | PList ms \<Rightarrow>
          (case ms of
             [item_type] \<Rightarrow>
               if inst data T_list
               then (case map_err (\<lambda>i. normalize_data i item_type) (seq_items data) of
                       Inl e \<Rightarrow> Inl e
                     | Inr ns \<Rightarrow> Inr (PList ns))
               else Inl (TypeError Mismatch)
           | _ \<Rightarrow> Inr data)
      | PTuple ts \<Rightarrow>
          (case py_iter data of
             Inl e \<Rightarrow> Inl e
           | Inr members \<Rightarrow>
               (case ts of
                  [a, b] \<Rightarrow>
                    if b = PEllipsis
                    then (case map_err (\<lambda>i. normalize_data i a) members of
                            Inl e \<Rightarrow> Inl e
                          | Inr ns \<Rightarrow> Inr (PTuple ns))
                    else (case map_err (\<lambda>p. normalize_data (fst p) (snd p)) (zip members ts) of
                            Inl e \<Rightarrow> Inl e
                          | Inr ns \<Rightarrow> Inr (PTuple ns))
                | _ \<Rightarrow>
                    (case map_err (\<lambda>p. normalize_data (fst p) (snd p)) (zip members ts) of
                       Inl e \<Rightarrow> Inl e
                     | Inr ns \<Rightarrow> Inr (PTuple ns))))
      | PType t \<Rightarrow> coerce_key_to_type data schema
      | PMeta c v s \<Rightarrow> Inl Unmodelled
      | _ \<Rightarrow> Inr data)"
  by pat_completeness auto
termination
  apply (relation "measure (\<lambda>(data, schema). size schema)")
  apply (auto dest!: set_zip_rightD dest: pyobj_size_member pyobj_size_value
              intro: pyobj_size_member [OF nth_mem] split: list.splits)
  done

text \<open>\<^verbatim>\<open>Meta(data, schema)\<close> without keyword options: the schema is normalized by the
  \<^verbatim>\<open>Schema\<close> constructor, the data is coerced by \<^verbatim>\<open>normalize_data\<close>, and the result
  is wrapped. An exception of the wrapper ends the process after printing it; it is the
  error value here.\<close>

definition Meta_new :: "pyobj \<Rightarrow> pyobj \<Rightarrow> pyerr + pyobj" where
  "Meta_new data schema =
     (case (if is_Schema schema then Inr schema else Schema_init schema None SchemaValidator_cls) of
        Inl e \<Rightarrow> Inl e
      | Inr schema_obj \<Rightarrow>
          (case normalize_data data (case schema_obj of PSchema s v c \<Rightarrow> s | _ \<Rightarrow> PNone) of
             Inl e \<Rightarrow> Inl e
           | Inr data' \<Rightarrow> wrap_meta_structure data' schema_obj))"

section \<open>Mutation of a container node (\<^verbatim>\<open>add\<close>, \<^verbatim>\<open>set\<close>, \<^verbatim>\<open>__setitem__\<close>)\<close>

text \<open>A method that mutates \<open>self\<close> is a function from the node to the node afterwards,
  paired with what the call returns or raises. The methods are called without keyword
  options.\<close>

definition node_members :: "pyobj \<Rightarrow> pyobj" where
  "node_members self = (case self of PMeta c v s \<Rightarrow> v | _ \<Rightarrow> PNone)"

definition node_schema :: "pyobj \<Rightarrow> pyobj" where
  "node_schema self = (case self of PMeta c v s \<Rightarrow> s | _ \<Rightarrow> PNone)"

definition with_members :: "pyobj \<Rightarrow> pyobj \<Rightarrow> pyobj" where
  "with_members self v = (case self of PMeta c u s \<Rightarrow> PMeta c v s | _ \<Rightarrow> self)"

definition retag :: "pyobj \<Rightarrow> pyobj \<Rightarrow> pyobj" where
  "retag node schema = (case node of PMeta c v s \<Rightarrow> PMeta c v schema | _ \<Rightarrow> node)"

text \<open>\<^verbatim>\<open>list.insert(i, x)\<close>: an index beyond either end is clamped.\<close>

definition list_insert :: "'a list \<Rightarrow> int \<Rightarrow> 'a \<Rightarrow> 'a list" where
  "list_insert xs i x =
     (let n = int (length xs);
          j = (if i < 0 then max 0 (n + i) else min n i)
      in take (nat j) xs @ [x] @ drop (nat j) xs)"

text \<open>The value \<^verbatim>\<open>add\<close> returns: the stored node when it is a container, else \<open>self\<close>.\<close>

definition chain_result :: "pyobj \<Rightarrow> pyobj \<Rightarrow> pyobj" where
  "chain_result val self =
     (if is_node val \<and> (inst val T_dict \<or> inst val T_list \<or> inst val T_set) then val else self)"

text \<open>\<^verbatim>\<open>Schema.ensure(self.resolve_schema(k, v))\<close> followed by
  \<^verbatim>\<open>wrap_meta_structure(v, resolved)\<close>. \<^verbatim>\<open>Schema.ensure\<close> passes no \<^verbatim>\<open>validate\<close>
  keyword, so the resolved schema validates only when the sub-schema is an instance of
  \<^verbatim>\<open>dict\<close>, \<^verbatim>\<open>list\<close>, \<^verbatim>\<open>tuple\<close>, \<^verbatim>\<open>set\<close>, \<^verbatim>\<open>bool\<close>, \<^verbatim>\<open>str\<close> or
  \<^verbatim>\<open>int\<close>, not when it is a class.\<close>

definition wrap_resolved :: "pyobj \<Rightarrow> pyobj \<Rightarrow> pyobj \<Rightarrow> pyerr + pyobj" where
  "wrap_resolved self k v =
     (case resolve_schema (node_schema self) k of
        Inl e \<Rightarrow> Inl e
      | Inr raw \<Rightarrow>
          (case Schema_ensure raw of
             Inl e \<Rightarrow> Inl e
           | Inr resolved \<Rightarrow> wrap_meta_structure v resolved))"

text \<open>The set case of \<^verbatim>\<open>add\<close> on several members: each is resolved, wrapped and added in
  turn, so the members added before a failure stay.\<close>

fun set_add_each :: "pyobj \<Rightarrow> pyobj list \<Rightarrow> pyobj \<times> (pyerr + unit)" where
  "set_add_each self [] = (self, Inr ())"
| "set_add_each self (item # rest) =
     (case resolve_schema (node_schema self) item of
        Inl e \<Rightarrow> (self, Inl e)
      | Inr resolved \<Rightarrow>
          (case wrap_meta_structure item resolved of
             Inl e \<Rightarrow> (self, Inl e)
           | Inr wrapped \<Rightarrow>
               if \<not> py_hashable wrapped then (self, Inl (TypeError BadHash))
               else set_add_each
                      (with_members self (PSet (node_set_add (seq_items self) wrapped))) rest))"

text \<open>\<^verbatim>\<open>MetaContainer.add(*args)\<close>. \<^verbatim>\<open>_pull_args\<close> splits the arguments by container
  type and raises \<^verbatim>\<open>NotImplementedError\<close> for a tuple node. A numeric string key of a
  dict node becomes an integer. The list forms that search the list for an existing
  member are not embedded.\<close>

definition Meta_add :: "pyobj \<Rightarrow> pyobj list \<Rightarrow> pyobj \<times> (pyerr + pyobj)" where
  "Meta_add self args =
     (case self of
        PMeta cls members schema \<Rightarrow>
          if args = [] then (self, Inl ValueError)
          else if cls = MetaDict then
            (if length args = 1 \<and> inst (args ! 0) T_dict then (self, Inl (TypeError Unhashable))
             else if length args \<noteq> 2 then (self, Inl ValueError)
             else
               let k = (case to_native (args ! 0) of
                          PStr s \<Rightarrow> if inst (args ! 0) T_str \<and> is_digit_str s
                                    then PInt (digits_value s) else args ! 0
                        | _ \<Rightarrow> args ! 0)
               in (case wrap_resolved self k (args ! 1) of
                     Inl e \<Rightarrow> (self, Inl e)
                   | Inr val \<Rightarrow>
                       if \<not> py_hashable k then (self, Inl (TypeError Unhashable))
                       else
                         let self' = with_members self (PDict (dict_store (dict_items self) k val))
                         in (self', Inr (chain_result val self'))))
          else if cls = MetaList then
            (if length args = 1 then
               (case wrap_resolved self PNone (args ! 0) of
                  Inl e \<Rightarrow> (self, Inl e)
                | Inr val \<Rightarrow>
                    let self' = with_members self (PList (seq_items self @ [val]))
                    in (self', Inr (chain_result val self')))
             else if length args = 2 then
               (case int_value (args ! 0) of
                  Some i \<Rightarrow>
                    (case wrap_resolved self (args ! 0) (args ! 1) of
                       Inl e \<Rightarrow> (self, Inl e)
                     | Inr val \<Rightarrow>
                         let self' = with_members self (PList (list_insert (seq_items self) i val))
                         in (self', Inr (chain_result val self')))
                | None \<Rightarrow> (self, Inl Unmodelled))
             else (self, Inl ValueError))
          else if cls = MetaSet then
            (let val = args ! 0 in
             if (inst val T_list \<or> inst val T_tuple \<or> inst val T_set)
             then (case set_add_each self (seq_items val) of
                     (self', Inl e) \<Rightarrow> (self', Inl e)
                   | (self', Inr u) \<Rightarrow> (self', Inr (chain_result val self')))
             else (case set_add_each self [val] of
                     (self', Inl e) \<Rightarrow> (self', Inl e)
                   | (self', Inr u) \<Rightarrow> (self', Inr (chain_result val self'))))
          else if cls = MetaTuple then (self, Inl NotImplementedError)
          else (self, Inl AttributeError)
      | _ \<Rightarrow> (self, Inl AttributeError))"

text \<open>\<^verbatim>\<open>MetaContainer.__setitem__(key, value)\<close>. The test on
  \<^verbatim>\<open>get_origin(self.schema)\<close> never applies to a \<^verbatim>\<open>Schema\<close> object. A list node
  re-tags the wrapped value with the resolved schema and assigns at an index in range; a
  tuple node has no \<^verbatim>\<open>__setitem__\<close> to delegate to; a set node refuses.\<close>

definition Meta_setitem :: "pyobj \<Rightarrow> pyobj \<Rightarrow> pyobj \<Rightarrow> pyobj \<times> (pyerr + unit)" where
  "Meta_setitem self key value =
     (case self of
        PMeta cls members schema \<Rightarrow>
          if cls = MetaSet then (self, Inl (TypeError Immutable))
          else
            (case resolve_schema schema key of
               Inl e \<Rightarrow> (self, Inl e)
             | Inr raw \<Rightarrow>
                 (case Schema_ensure raw of
                    Inl e \<Rightarrow> (self, Inl e)
                  | Inr resolved \<Rightarrow>
                      (case (if is_node value then Inr value
                             else wrap_meta_structure value resolved) of
                         Inl e \<Rightarrow> (self, Inl e)
                       | Inr wrapped \<Rightarrow>
                           if cls = MetaDict then
                             (if \<not> py_hashable key then (self, Inl (TypeError Unhashable))
                              else (with_members self
                                      (PDict (dict_store (dict_items self) key wrapped)), Inr ()))
                           else if cls = MetaList then
                             (case int_value key of
                                None \<Rightarrow> (self, Inl (TypeError Mismatch))
                              | Some i \<Rightarrow>
                                  if i < - int (length (seq_items self))
                                     \<or> int (length (seq_items self)) \<le> i
                                  then (self, Inl IndexError)
                                  else (with_members self
                                          (PList ((seq_items self)
                                             [nat (if i < 0 then int (length (seq_items self)) + i
                                                   else i)
                                              := retag wrapped resolved])),
                                        Inr ()))
                           else if cls = MetaTuple then (self, Inl AttributeError)
                           else (self, Inl Unmodelled))))
      | _ \<Rightarrow> (self, Inl AttributeError))"

text \<open>\<^verbatim>\<open>MetaContainer.set(key, value)\<close>, the form with two arguments on a dict or list
  node: the value is resolved and wrapped, then stored with \<^verbatim>\<open>self[key] = wrapped\<close>.
  The forms with one argument go through \<^verbatim>\<open>update\<close> and are not embedded.\<close>

definition Meta_set :: "pyobj \<Rightarrow> pyobj \<Rightarrow> pyobj \<Rightarrow> pyobj \<times> (pyerr + pyobj)" where
  "Meta_set self key value =
     (case self of
        PMeta cls members schema \<Rightarrow>
          if cls = MetaDict \<or> cls = MetaList then
            (case wrap_resolved self key value of
               Inl e \<Rightarrow> (self, Inl e)
             | Inr wrapped \<Rightarrow>
                 (case Meta_setitem self key wrapped of
                    (self', Inl e) \<Rightarrow> (self', Inl e)
                  | (self', Inr u) \<Rightarrow> (self', Inr self')))
          else (self, Inl Unmodelled)
      | _ \<Rightarrow> (self, Inl AttributeError))"


section \<open>Notions used to state the properties\<close>

text \<open>The key patterns of an explicit map as the specification describes them: a literal
  key (\<^verbatim>\<open>None\<close>, a boolean, a number or a string), a class, or a tuple of classes.
  \<open>key_matches\<close> is the specification's "matches at least one declared key-pattern":
  the key is a declared key of the dict, or is an instance of a declared class or of a
  member of a declared tuple of classes.\<close>

definition key_pattern_ok :: "pyobj \<Rightarrow> bool" where
  "key_pattern_ok p =
     (case p of
        PTuple ts \<Rightarrow> list_all is_type ts
      | PType t \<Rightarrow> True
      | PNone \<Rightarrow> True
      | PBool b \<Rightarrow> True
      | PInt i \<Rightarrow> True
      | PFloat r \<Rightarrow> True
      | PStr s \<Rightarrow> True
      | _ \<Rightarrow> False)"

definition pattern_accepts :: "pyobj \<Rightarrow> pyobj \<Rightarrow> bool" where
  "pattern_accepts p k =
     (case p of
        PType t \<Rightarrow> inst k t
      | PTuple ts \<Rightarrow> list_ex (\<lambda>t. case t of PType ty \<Rightarrow> inst k ty | _ \<Rightarrow> False) ts
      | _ \<Rightarrow> False)"

definition key_matches :: "(pyobj \<times> pyobj) list \<Rightarrow> pyobj \<Rightarrow> bool" where
  "key_matches fields k = list_ex (\<lambda>p. same_key p k \<or> pattern_accepts p k) (map fst fields)"

text \<open>Raw data: \<^verbatim>\<open>None\<close>, booleans, numbers, strings, and lists, tuples and dicts of raw
  data (a dict with any keys); the members of a set are booleans, numbers or strings.\<close>

definition is_scalar :: "pyobj \<Rightarrow> bool" where
  "is_scalar x =
     (case x of PBool b \<Rightarrow> True | PInt i \<Rightarrow> True | PFloat r \<Rightarrow> True | PStr s \<Rightarrow> True | _ \<Rightarrow> False)"

fun plain_data :: "pyobj \<Rightarrow> bool" where
  "plain_data PNone = True"
| "plain_data (PBool b) = True"
| "plain_data (PInt i) = True"
| "plain_data (PFloat r) = True"
| "plain_data (PStr s) = True"
| "plain_data (PList xs) = list_all plain_data xs"
| "plain_data (PTuple xs) = list_all plain_data xs"
| "plain_data (PSet xs) = list_all is_scalar xs"
| "plain_data (PDict kvs) = list_all plain_data (map snd kvs)"
| "plain_data x = False"


text \<open>The two \<^verbatim>\<open>Schema\<close> objects that carry no schema: the one built from a falsy
  expression, and the \<^verbatim>\<open>Any\<close> schema that \<^verbatim>\<open>resolve_from\<close> derives from it.\<close>

definition no_schema :: "pyobj \<Rightarrow> bool" where
  "no_schema S =
     (S = PSchema PNone False NoOpValidator_cls \<or> S = PSchema PAny False NoOpValidator_cls)"

section \<open>Properties of normalization, resolution and defaults\<close>

text \<open>
  \<^bold>\<open>C2\<close> (normalization is idempotent). The code breaks it on
  \<^verbatim>\<open>Dict[Optional[int], str]\<close>: the \<^verbatim>\<open>Dict\<close> branch keeps the one-member key tuple
  \<^verbatim>\<open>(int,)\<close>, and normalizing that result again goes through the dict-instance branch,
  which replaces a one-member key tuple by its member. The two results differ.
\<close>

theorem normalize_schema_twice_differs:
  "normalize_schema (PGeneric O_dict [PGeneric O_Union [PType T_int, PType T_NoneType], PType T_str])
     = Inr (PDict [(PTuple [PType T_int], PType T_str)])
   \<and> normalize_schema (PDict [(PTuple [PType T_int], PType T_str)])
     = Inr (PDict [(PType T_int, PType T_str)])"
  by (simp add: sorted_by_def set_add_def tyname_str_def explicit_key_def)

text \<open>
  \<^bold>\<open>C4\<close> (a sum with one member left collapses to that member). On
  \<^verbatim>\<open>Union[int, None]\<close> the code strips \<^verbatim>\<open>NoneType\<close> but returns the one-member
  set \<^verbatim>\<open>{int}\<close>, which is also what \<^verbatim>\<open>Set[int]\<close> normalizes to; it does not return
  \<^verbatim>\<open>int\<close>.
\<close>

theorem normalize_schema_optional_is_singleton_set:
  "normalize_schema (PGeneric O_Union [PType T_int, PType T_NoneType]) = Inr (PSet [PType T_int])
   \<and> normalize_schema (PGeneric O_Union [PType T_int, PType T_NoneType]) \<noteq> Inr (PType T_int)
   \<and> normalize_schema (PGeneric O_set [PType T_int]) = Inr (PSet [PType T_int])"
  by (simp add: set_add_def)

text \<open>
  \<^bold>\<open>C5\<close> (a sequence or set descriptor resolves to its item descriptor at every index).
  As stated this fails: \<^verbatim>\<open>resolve_from\<close> indexes the schema, so on \<^verbatim>\<open>[int]\<close> index
  \<open>0\<close> gives \<^verbatim>\<open>int\<close> while index \<open>1\<close> and the key \<^verbatim>\<open>None\<close> give \<^verbatim>\<open>Any\<close>.
\<close>

theorem resolve_from_depends_on_index:
  "resolve_from (PSchema (PList [PType T_int]) True SchemaValidator_cls) (PInt 0) 0
     = Inr (PSchema (PType T_int) True SchemaValidator_cls)
   \<and> resolve_from (PSchema (PList [PType T_int]) True SchemaValidator_cls) (PInt 1) 0
     = Inr (PSchema PAny True SchemaValidator_cls)
   \<and> resolve_from (PSchema (PList [PType T_int]) True SchemaValidator_cls) PNone 0
     = Inr (PSchema PAny True SchemaValidator_cls)"
  by (simp add: resolve_from_def sub_schema_raw_def py_index_def Schema_init_def is_Schema_def)

text \<open>
  \<^bold>\<open>C5\<close>, amended. For a list or set schema with members \<open>xs\<close>, \<^verbatim>\<open>resolve_from\<close>
  never fails in the resolution itself: a key that is not an integer, or an integer
  outside \<open>-len(xs) \<le> i < len(xs)\<close>, yields the \<^verbatim>\<open>Any\<close> schema with the parent's
  \<^verbatim>\<open>_validate\<close> and validator class; an integer in range yields the member at that
  position (counted from the end when negative), \<^verbatim>\<open>Any\<close> when that member is
  \<^verbatim>\<open>None\<close>, wrapped by the \<^verbatim>\<open>Schema\<close> constructor unless it is a \<^verbatim>\<open>Schema\<close>
  already.
\<close>

theorem resolve_from_sequence:
  assumes "schema = PList xs \<or> schema = PSet xs"
  shows "resolve_from (PSchema schema v c) key level =
     (case int_value key of
        None \<Rightarrow> Inr (PSchema PAny v c)
      | Some i \<Rightarrow>
          if - int (length xs) \<le> i \<and> i < int (length xs)
          then (let x = xs ! nat (if i < 0 then int (length xs) + i else i)
                in if x = PNone then Inr (PSchema PAny v c)
                   else if is_Schema x then Inr x
                   else Schema_init x (Some v) c)
          else Inr (PSchema PAny v c))"
  using assms
  by (auto simp: resolve_from_def sub_schema_raw_def py_index_def Schema_init_def is_Schema_def
      Let_def split: option.splits)

theorem resolve_from_sequence_witness:
  "resolve_from (PSchema (PSet [PType T_str, PType T_int]) False SchemaValidator_cls) (PInt (-1)) 0
     = Inr (PSchema (PType T_int) False SchemaValidator_cls)
   \<and> resolve_from (PSchema (PSet [PType T_str, PType T_int]) False SchemaValidator_cls) (PStr ''a'') 0
     = Inr (PSchema PAny False SchemaValidator_cls)"
  using resolve_from_sequence [of "PSet [PType T_str, PType T_int]" "[PType T_str, PType T_int]"
          False SchemaValidator_cls "PInt (-1)" 0]
        resolve_from_sequence [of "PSet [PType T_str, PType T_int]" "[PType T_str, PType T_int]"
          False SchemaValidator_cls "PStr ''a''" 0]
  by (simp add: Schema_init_def is_Schema_def)

text \<open>
  \<^bold>\<open>C8\<close> (defaults: empty container for map, sequence, set and tuple descriptors, zero
  for scalars, null for Any or unknown, first branch for a sum). On the variadic tuple
  descriptor \<^verbatim>\<open>(int, ...)\<close> \<^verbatim>\<open>helpers.get_default_from_type\<close> returns \<open>0\<close>, not
  the empty tuple: its first test, \<^verbatim>\<open>isinstance(tp, tuple)\<close>, returns the default of
  the first member, so the two later branches of the same function that handle tuples
  (\<^verbatim>\<open>tuple()\<close> for a tuple holding \<^verbatim>\<open>Ellipsis\<close>, the tuple of the members' defaults
  otherwise) are never reached. The same holds for the fixed tuple \<^verbatim>\<open>(int, str)\<close>, and
  \<^verbatim>\<open>meta_core.get_default_value_from_type\<close>, which has no tuple branch, returns
  \<^verbatim>\<open>None\<close> for both and for \<^verbatim>\<open>Tuple[int, ...]\<close>.
\<close>

theorem default_of_variadic_tuple_is_zero:
  "get_default_from_type (PTuple [PType T_int, PEllipsis]) = Inr (PInt 0)
   \<and> get_default_from_type (PTuple [PType T_int, PEllipsis]) \<noteq> Inr (PTuple [])
   \<and> get_default_from_type (PTuple [PType T_int, PType T_str]) = Inr (PInt 0)
   \<and> get_default_value_from_type (PTuple [PType T_int, PEllipsis]) = Inr PNone
   \<and> get_default_value_from_type (PTuple [PType T_int, PType T_str]) = Inr PNone
   \<and> get_default_value_from_type (PGeneric O_tuple [PType T_int, PEllipsis]) = Inr PNone"
  by (simp add: call0_or_None_def)

text \<open>The other descriptors: both functions return the empty dict, list and set for a
  dict, list and set schema, the zero value for \<^verbatim>\<open>int\<close>, \<^verbatim>\<open>float\<close>, \<^verbatim>\<open>str\<close> and
  \<^verbatim>\<open>bool\<close>, and \<^verbatim>\<open>None\<close> for \<^verbatim>\<open>None\<close>, \<^verbatim>\<open>NoneType\<close>, \<^verbatim>\<open>Any\<close> and
  \<^verbatim>\<open>Ellipsis\<close>. A non-empty tuple given to \<^verbatim>\<open>get_default_from_type\<close> yields the
  default of its first member, whatever that is (\<^verbatim>\<open>(tuple, int)\<close> yields \<^verbatim>\<open>()\<close>), and
  a \<^verbatim>\<open>typing.Union\<close> given to \<^verbatim>\<open>get_default_value_from_type\<close> the default of its
  first branch that is not \<^verbatim>\<open>NoneType\<close>.\<close>

lemma default_values:
  "get_default_from_type (PDict kvs) = Inr (PDict [])
   \<and> get_default_from_type (PList xs) = Inr (PList [])
   \<and> get_default_from_type (PSet xs) = Inr (PSet [])
   \<and> get_default_from_type (PType T_int) = Inr (PInt 0)
   \<and> get_default_from_type (PType T_float) = Inr (PFloat 0)
   \<and> get_default_from_type (PType T_str) = Inr (PStr [])
   \<and> get_default_from_type (PType T_bool) = Inr (PBool False)
   \<and> get_default_from_type PNone = Inr PNone
   \<and> get_default_from_type (PType T_NoneType) = Inr PNone
   \<and> get_default_from_type PAny = Inr PNone
   \<and> get_default_from_type PEllipsis = Inr PNone
   \<and> get_default_from_type (PTuple (t # ts)) = get_default_from_type t
   \<and> get_default_from_type (PTuple [PType T_tuple, PType T_int]) = Inr (PTuple [])
   \<and> get_default_value_from_type (PDict kvs) = Inr (PDict [])
   \<and> get_default_value_from_type (PList xs) = Inr (PList [])
   \<and> get_default_value_from_type (PSet xs) = Inr (PSet [])
   \<and> get_default_value_from_type (PGeneric O_dict args) = Inr (PDict [])
   \<and> get_default_value_from_type (PGeneric O_list args) = Inr (PList [])
   \<and> get_default_value_from_type (PGeneric O_set args) = Inr (PSet [])
   \<and> get_default_value_from_type (PType T_int) = Inr (PInt 0)
   \<and> get_default_value_from_type (PType T_float) = Inr (PFloat 0)
   \<and> get_default_value_from_type (PType T_str) = Inr (PStr [])
   \<and> get_default_value_from_type (PType T_bool) = Inr (PBool False)
   \<and> get_default_value_from_type PNone = Inr PNone
   \<and> get_default_value_from_type (PType T_NoneType) = Inr PNone
   \<and> get_default_value_from_type PAny = Inr PNone
   \<and> get_default_value_from_type PEllipsis = Inr PNone
   \<and> get_default_value_from_type (PGeneric O_Union (PType T_NoneType # b # bs))
       = get_default_value_from_type (PGeneric O_Union (b # bs))
   \<and> (get_default_value_from_type (PGeneric O_Union (b # bs))
       = (if b = PType T_NoneType then get_default_value_from_type (PGeneric O_Union bs)
          else get_default_value_from_type b))"
  by (simp add: call0_or_None_def)

section \<open>Properties of validation, wrapping and mutation\<close>

text \<open>The two membership tests written into \<open>validate_native\<close> and
  \<open>normalize_data\<close> for their termination proofs always hold.\<close>

lemma first_valid_member: "first_valid f xs = Inr (Some c) \<Longrightarrow> c \<in> set xs"
  by (induction xs) (auto split: sum.splits if_splits)

lemma union_first_pass_member:
  "union_first_pass inner v xs = Inr (Some a) \<Longrightarrow> a \<in> set xs \<or> inner = Inr (Some a)"
  by (induction xs) (auto split: sum.splits if_splits option.splits)

lemma resolve_union_branch_member:
  assumes "is_union_origin g"
    and "resolve_union_branch v (PGeneric g args) = Inr branch"
  shows "branch \<in> set args"
proof -
  let ?inner = "first_valid (\<lambda>curr_arg. validate_all curr_arg v) args"
  let ?second = "first_valid (\<lambda>arg. if empty_match arg v then Inr () else validate_all arg v) args"
  from assms have
    "(case union_first_pass ?inner v args of
        Inl e \<Rightarrow> Inl e
      | Inr (Some arg) \<Rightarrow> Inr arg
      | Inr None \<Rightarrow>
          (case ?second of
             Inl e \<Rightarrow> Inl e
           | Inr (Some arg) \<Rightarrow> Inr arg
           | Inr None \<Rightarrow> Inl (TypeError NoUnionMatch))) = Inr branch"
    by (simp del: validate_all.simps)
  then consider "union_first_pass ?inner v args = Inr (Some branch)" | "?second = Inr (Some branch)"
    by (auto split: sum.splits option.splits)
  then show ?thesis
  proof cases
    case 1
    then show ?thesis using union_first_pass_member first_valid_member by blast
  next
    case 2
    then show ?thesis by (rule first_valid_member)
  qed
qed

lemma match_entry_schema:
  "match_entry items k found = Inr r \<Longrightarrow> snd r = snd found \<or> snd r \<in> snd ` set items"
proof (induction items k found rule: match_entry.induct)
  case (1 k found)
  then show ?case by simp
next
  case (2 sk sv rest k found)
  then show ?case
    by (auto split: if_splits pyobj.splits sum.splits option.splits) force+
qed

lemma isinstance_any_types:
  "list_all is_type ts \<Longrightarrow>
   py_isinstance_any k ts = Inr (list_ex (\<lambda>t. case t of PType ty \<Rightarrow> inst k ty | _ \<Rightarrow> False) ts)"
  by (induction ts) (auto simp: is_type_def split: pyobj.splits)

lemma key_type_matches_patterns:
  "list_all key_pattern_ok ps \<Longrightarrow>
   key_type_matches ps k = Inr (list_ex (\<lambda>p. pattern_accepts p k) ps)"
proof (induction ps)
  case Nil
  then show ?case by simp
next
  case (Cons p ps)
  then have ok: "key_pattern_ok p"
    and rest: "key_type_matches ps k = Inr (list_ex (\<lambda>p. pattern_accepts p k) ps)"
    by simp_all
  show ?case
  proof (cases p)
    case (PTuple ts)
    with ok have "list_all is_type ts" by (simp add: key_pattern_ok_def)
    then show ?thesis using PTuple rest
      by (simp add: isinstance_any_types pattern_accepts_def)
  next
    case (PMeta c v s)
    with ok show ?thesis by (simp add: key_pattern_ok_def)
  qed (use rest in \<open>simp_all add: pattern_accepts_def\<close>)
qed

lemma dict_lookup_exact:
  "(dict_lookup fields k \<noteq> None) = list_ex (\<lambda>p. same_key p k) (map fst fields)"
  by (induction fields) auto

lemma check_allowed_keys_rejects:
  assumes "list_all key_pattern_ok (map fst fields)"
    and "list_ex (\<lambda>k. \<not> key_matches fields k) ks"
  shows "check_allowed_keys fields ks = Inl (TypeError KeyNotAllowed)"
  using assms(2)
proof (induction ks)
  case Nil
  then show ?case by simp
next
  case (Cons k ks)
  have m: "key_type_matches (map fst fields) k
             = Inr (list_ex (\<lambda>p. pattern_accepts p k) (map fst fields))"
    using assms(1) by (rule key_type_matches_patterns)
  have km: "key_matches fields k =
      (dict_lookup fields k \<noteq> None \<or> list_ex (\<lambda>p. pattern_accepts p k) (map fst fields))"
    unfolding key_matches_def dict_lookup_exact by (induction fields) auto
  show ?case
  proof (cases "key_matches fields k")
    case True
    with Cons have "check_allowed_keys fields ks = Inl (TypeError KeyNotAllowed)" by simp
    with True km m show ?thesis by auto
  next
    case False
    with km m show ?thesis by auto
  qed
qed

text \<open>
  \<^bold>\<open>C3\<close> (explicit maps are closed-world). For an explicit-map schema whose key patterns
  are literal keys, classes or tuples of classes, \<^verbatim>\<open>validate_all\<close> on a dict, plain or
  wrapped, that has a key matching no declared pattern fails with the
  key-not-allowed \<^verbatim>\<open>TypeError\<close>, whatever the values of the dict are. A key matches
  a literal pattern when it is the same dict key (\<^verbatim>\<open>k in expected_type\<close>), so a
  wrapped key \<^verbatim>\<open>MetaStr('name')\<close> matches the pattern \<^verbatim>\<open>'name'\<close>; it matches a class
  when it is an instance of it.
\<close>

theorem explicit_map_closed_world:
  assumes "list_all key_pattern_ok (map fst fields)"
    and "data = PDict kvs \<or> data = PMeta MetaDict (PDict kvs) s"
    and "list_ex (\<lambda>k. \<not> key_matches fields k) (map fst kvs)"
  shows "validate_all (PDict fields) data = Inl (TypeError KeyNotAllowed)"
  using assms(2) check_allowed_keys_rejects [OF assms(1) assms(3)]
  by auto

theorem explicit_map_closed_world_witness:
  "list_all key_pattern_ok (map fst [(PStr ''name'', PType T_str)])
   \<and> list_ex (\<lambda>k. \<not> key_matches [(PStr ''name'', PType T_str)] k)
        (map fst [(PStr ''extra'', PInt 1)])
   \<and> validate_all (PDict [(PStr ''name'', PType T_str)]) (PDict [(PStr ''extra'', PInt 1)])
       = Inl (TypeError KeyNotAllowed)"
  using explicit_map_closed_world [of "[(PStr ''name'', PType T_str)]"
          "PDict [(PStr ''extra'', PInt 1)]" "[(PStr ''extra'', PInt 1)]" PNone]
  by (simp add: key_pattern_ok_def key_matches_def pattern_accepts_def same_key_def
        atom_eq_def is_MetaBool_def is_MetaNone_def builtin_view_def)

text \<open>A declared key is accepted whether the data holds it as a native value or as a
  scalar node, and a \<^verbatim>\<open>MetaBool\<close> key is the key \<open>1\<close> or \<open>0\<close>.\<close>

lemma node_key_is_declared_key:
  "key_matches [(PStr ''name'', PType T_str)]
     (PMeta MetaStr (PStr ''name'') (PSchema (PType T_str) True SchemaValidator_cls))
   \<and> validate_all (PDict [(PStr ''name'', PType T_str)])
        (PDict [(PMeta MetaStr (PStr ''name'') (PSchema (PType T_str) True SchemaValidator_cls),
                 PStr ''x'')]) = Inr ()
   \<and> dict_lookup [(PInt 1, PType T_str)]
        (PMeta MetaBool (PBool True) (PSchema (PType T_bool) True SchemaValidator_cls))
       = Some (PType T_str)
   \<and> dict_lookup [(PInt 5, PType T_str)]
        (PMeta MetaBool (PBool True) (PSchema (PType T_bool) True SchemaValidator_cls)) = None"
  by code_simp

text \<open>
  \<^bold>\<open>C6\<close> (an empty sequence validates against a sum with a sequence branch and selects
  the first such branch). On \<^verbatim>\<open>Union[Dict[str, int], List[int]]\<close> and the value
  \<^verbatim>\<open>[]\<close> the code raises \<^verbatim>\<open>AttributeError\<close>: the first branch is not a list, so
  the inner loop validates the value against every branch, and
  \<^verbatim>\<open>_validate_native([], Dict[str, int])\<close> calls \<^verbatim>\<open>[].items()\<close>; only
  \<^verbatim>\<open>TypeError\<close> is caught. On \<^verbatim>\<open>Union[Set[str], List[int]]\<close> the same inner loop
  accepts the set branch for \<^verbatim>\<open>[]\<close>, since \<^verbatim>\<open>_validate_native\<close> only iterates.
\<close>

theorem empty_list_against_union:
  "resolve_union_branch (PList [])
     (PGeneric O_Union [PGeneric O_dict [PType T_str, PType T_int], PGeneric O_list [PType T_int]])
     = Inl AttributeError
   \<and> validate_all
       (PGeneric O_Union [PGeneric O_dict [PType T_str, PType T_int], PGeneric O_list [PType T_int]])
       (PList [])
     = Inl AttributeError
   \<and> resolve_union_branch (PList [])
       (PGeneric O_Union [PGeneric O_set [PType T_str], PGeneric O_list [PType T_int]])
     = Inr (PGeneric O_set [PType T_str])"
  by code_simp

text \<open>
  \<^bold>\<open>C1\<close> (unwrapping a wrapped value gives the value back). The tuple \<^verbatim>\<open>(1, 2)\<close>
  validates against \<^verbatim>\<open>Any\<close>, and wrapping it succeeds, but the node is the empty
  tuple: \<^verbatim>\<open>MetaTuple.__new__\<close> reads the item schemas with \<^verbatim>\<open>get_args\<close> from the
  \<^verbatim>\<open>Schema\<close> object, gets none, and zips the members with them.
\<close>

theorem wrapped_tuple_is_empty:
  "validate_all PAny (PTuple [PInt 1, PInt 2]) = Inr ()
   \<and> wrap_meta_structure (PTuple [PInt 1, PInt 2]) PAny
       = Inr (PMeta MetaTuple (PTuple []) (PSchema PAny False SchemaValidator_cls))
   \<and> to_native (PMeta MetaTuple (PTuple []) (PSchema PAny False SchemaValidator_cls)) = PTuple []"
  by code_simp

text \<open>
  \<^bold>\<open>C7\<close> (key coercion: wrapping \<^verbatim>\<open>{"1": "a"}\<close> against \<^verbatim>\<open>{int: str}\<close> gives a
  map node whose only key is the integer \<open>1\<close>). \<^verbatim>\<open>wrap_meta_structure\<close> raises the
  key-not-allowed \<^verbatim>\<open>TypeError\<close> on this input instead. The \<^verbatim>\<open>coerce_dict_keys\<close> it
  calls is the one defined in \<^verbatim>\<open>meta_core\<close>, which replaces the function of the same
  name imported from \<^verbatim>\<open>helpers\<close>; it and \<^verbatim>\<open>Schema.coerce_key\<close> convert keys only
  when the schema is a subscripted \<^verbatim>\<open>Dict\<close>, which a normalized schema never is. Both
  leave the text key as it is, and \<^verbatim>\<open>validate_all\<close> then refuses it.
\<close>

theorem wrap_rejects_text_key:
  "wrap_meta_structure (PDict [(PStr ''1'', PStr ''a'')]) (PDict [(PType T_int, PType T_str)])
     = Inl (TypeError KeyNotAllowed)
   \<and> coerce_dict_keys (PDict [(PStr ''1'', PStr ''a'')]) (PDict [(PType T_int, PType T_str)])
     = Inr (PDict [(PStr ''1'', PStr ''a'')])
   \<and> coerce_key (PSchema (PDict [(PType T_int, PType T_str)]) True SchemaValidator_cls)
        (PStr ''1'') = Inr (PStr ''1'')"
  by code_simp

text \<open>The key is coerced by \<^verbatim>\<open>helpers.normalize_data\<close>, which only the \<^verbatim>\<open>Meta\<close> facade
  runs, before it wraps: \<^verbatim>\<open>Meta({"1": "a"}, {int: str})\<close> is a dict node whose only key
  is the integer \<open>1\<close>.\<close>

lemma Meta_facade_coerces_text_key:
  "normalize_data (PDict [(PStr ''1'', PStr ''a'')]) (PDict [(PType T_int, PType T_str)])
     = Inr (PDict [(PInt 1, PStr ''a'')])
   \<and> Meta_new (PDict [(PStr ''1'', PStr ''a'')]) (PDict [(PType T_int, PType T_str)])
     = Inr (PMeta MetaDict
              (PDict [(PInt 1,
                       PMeta MetaStr (PStr ''a'') (PSchema (PType T_str) True SchemaValidator_cls))])
              (PSchema (PDict [(PType T_int, PType T_str)]) True SchemaValidator_cls))"
  by code_simp

text \<open>
  \<^bold>\<open>C9\<close> (a wrongly typed insertion fails and leaves the node unchanged). On the node
  wrapped from \<^verbatim>\<open>{"name": "a"}\<close> under \<^verbatim>\<open>{"name": str}\<close>, both
  \<^verbatim>\<open>add("name", 5)\<close> and \<^verbatim>\<open>set("name", 5)\<close> succeed and store the integer: the
  sub-schema \<^verbatim>\<open>str\<close> goes through \<^verbatim>\<open>Schema.ensure\<close>, which passes no
  \<^verbatim>\<open>validate\<close> keyword, so the resolved schema does not validate. Wrapping the same
  dict from scratch, where \<^verbatim>\<open>resolve_from\<close> hands \<^verbatim>\<open>_validate\<close> down, is refused.
\<close>

theorem add_accepts_wrong_type:
  "wrap_meta_structure (PDict [(PStr ''name'', PStr ''a'')]) (PDict [(PStr ''name'', PType T_str)])
     = Inr (PMeta MetaDict
              (PDict [(PStr ''name'',
                       PMeta MetaStr (PStr ''a'') (PSchema (PType T_str) True SchemaValidator_cls))])
              (PSchema (PDict [(PStr ''name'', PType T_str)]) True SchemaValidator_cls))
   \<and> Meta_add
        (PMeta MetaDict
           (PDict [(PStr ''name'',
                    PMeta MetaStr (PStr ''a'') (PSchema (PType T_str) True SchemaValidator_cls))])
           (PSchema (PDict [(PStr ''name'', PType T_str)]) True SchemaValidator_cls))
        [PStr ''name'', PInt 5]
     = (PMeta MetaDict
          (PDict [(PStr ''name'',
                   PMeta MetaInt (PInt 5) (PSchema (PType T_str) False SchemaValidator_cls))])
          (PSchema (PDict [(PStr ''name'', PType T_str)]) True SchemaValidator_cls),
        Inr (PMeta MetaDict
          (PDict [(PStr ''name'',
                   PMeta MetaInt (PInt 5) (PSchema (PType T_str) False SchemaValidator_cls))])
          (PSchema (PDict [(PStr ''name'', PType T_str)]) True SchemaValidator_cls)))
   \<and> fst (Meta_set
        (PMeta MetaDict
           (PDict [(PStr ''name'',
                    PMeta MetaStr (PStr ''a'') (PSchema (PType T_str) True SchemaValidator_cls))])
           (PSchema (PDict [(PStr ''name'', PType T_str)]) True SchemaValidator_cls))
        (PStr ''name'') (PInt 5))
     = PMeta MetaDict
          (PDict [(PStr ''name'',
                   PMeta MetaInt (PInt 5) (PSchema (PType T_str) False SchemaValidator_cls))])
          (PSchema (PDict [(PStr ''name'', PType T_str)]) True SchemaValidator_cls)
   \<and> to_native
        (PMeta MetaDict
          (PDict [(PStr ''name'',
                   PMeta MetaInt (PInt 5) (PSchema (PType T_str) False SchemaValidator_cls))])
          (PSchema (PDict [(PStr ''name'', PType T_str)]) True SchemaValidator_cls))
     = PDict [(PStr ''name'', PInt 5)]
   \<and> wrap_meta_structure (PDict [(PStr ''name'', PInt 5)]) (PDict [(PStr ''name'', PType T_str)])
     = Inl (TypeError Mismatch)"
  by code_simp

section \<open>Wrapping without a schema\<close>

lemma falsy_Schema_init:
  "\<not> py_truthy raw \<Longrightarrow> Schema_init raw None vc = Inr (PSchema PNone False NoOpValidator_cls)"
  by (simp add: Schema_init_def)

lemma no_schema_resolve_from:
  "no_schema S \<Longrightarrow> resolve_from S key level = Inr (PSchema PAny False NoOpValidator_cls)"
  by (auto simp: no_schema_def resolve_from_def sub_schema_raw_def Schema_init_def is_Schema_def)

lemma no_schema_validate_node: "no_schema S \<Longrightarrow> validate_node S n = Inr n"
  by (auto simp: no_schema_def validate_node_def build_validator_def)

lemma validate_all_Schema_object: "validate_all (PSchema r b vc) (PMeta c v s) = Inr ()"
  by (simp add: is_node_def match_or_raise_def)

lemma type_check_Schema_object: "type_check v (PSchema r b vc) = Inr ()"
  by (simp add: match_or_raise_def)

lemma wrap_scalar:
  assumes "no_schema S" "is_scalar x"
  shows "\<exists>n. wrap_meta_structure x S = Inr n \<and> is_node n \<and> py_hashable n"
  using assms
  by (cases x)
     (auto simp: no_schema_def is_scalar_def is_Schema_def MetaBool_new_def MetaScalar_new_def
        build_validator_def MetaNodeMixin_init_def validate_all_Schema_object
        type_check_Schema_object validate_node_def is_node_def
      simp del: validate_all.simps type_check.simps)


lemma wrap_each_nodes:
  assumes "\<And>x. x \<in> set xs \<Longrightarrow> \<exists>n. wrap_meta_structure x S = Inr n \<and> is_node n \<and> (Q \<longrightarrow> py_hashable n)"
  shows "\<exists>ns. wrap_each xs S = Inr ns \<and> list_all is_node ns \<and> (Q \<longrightarrow> list_all py_hashable ns)"
  using assms
proof (induction xs)
  case Nil
  then show ?case by simp
next
  case (Cons x xs)
  obtain n where n: "wrap_meta_structure x S = Inr n" "is_node n" "Q \<longrightarrow> py_hashable n"
    using Cons.prems [of x] by auto
  obtain ns where ns: "wrap_each xs S = Inr ns" "list_all is_node ns" "Q \<longrightarrow> list_all py_hashable ns"
    using Cons.IH Cons.prems by auto
  show ?case using n ns by (simp del: wrap_meta_structure.simps)
qed

lemma dict_store_nodes:
  "list_all is_node (map snd acc) \<Longrightarrow> is_node n \<Longrightarrow> list_all is_node (map snd (dict_store acc k n))"
  by (induction acc) auto

lemma no_schema_coerce_key: "no_schema S \<Longrightarrow> coerce_key S k = Inr k"
  by (auto simp: no_schema_def coerce_key_def get_origin_def)

lemma wrap_items_nodes:
  assumes "no_schema S"
    and "\<And>v. v \<in> snd ` set kvs \<Longrightarrow>
           \<exists>n. wrap_meta_structure v (PSchema PAny False NoOpValidator_cls) = Inr n \<and> is_node n"
    and "list_all is_node (map snd acc)"
  shows "\<exists>w. wrap_items kvs S acc = Inr w \<and> list_all is_node (map snd w)"
  using assms(2,3)
proof (induction kvs arbitrary: acc)
  case Nil
  then show ?case by simp
next
  case (Cons kv kvs)
  obtain k v where kv: "kv = (k, v)" by (cases kv)
  obtain n where n: "wrap_meta_structure v (PSchema PAny False NoOpValidator_cls) = Inr n" "is_node n"
    using Cons.prems(1) [of v] kv by auto
  have "list_all is_node (map snd (dict_store acc k n))"
    using Cons.prems(2) n(2) by (rule dict_store_nodes)
  then obtain w where "wrap_items kvs S (dict_store acc k n) = Inr w" "list_all is_node (map snd w)"
    using Cons.IH [of "dict_store acc k n"] Cons.prems(1) by auto
  then show ?case
    using kv n assms(1)
    by (simp add: no_schema_coerce_key no_schema_resolve_from del: wrap_meta_structure.simps)
qed

lemma no_schema_resolve_schema: "no_schema S \<Longrightarrow> resolve_schema S k = Inr PNone"
  by (auto simp: no_schema_def resolve_schema_def coerce_key_type_def get_origin_def)

lemma Schema_ensure_None: "Schema_ensure PNone = Inr (PSchema PNone False NoOpValidator_cls)"
  by (simp add: Schema_ensure_def Schema_init_def is_Schema_def)

lemma MetaDict_fill_ok:
  "no_schema S \<Longrightarrow> list_all is_node (map snd data) \<Longrightarrow> \<exists>r. MetaDict_fill S data self = Inr r"
proof (induction data arbitrary: self)
  case Nil
  then show ?case by simp
next
  case (Cons kv data)
  obtain k v where kv: "kv = (k, v)" by (cases kv)
  have c: "coerce_key_type S k = Inr k"
    using Cons.prems(1) by (auto simp: no_schema_def coerce_key_type_def get_origin_def)
  show ?case
    using Cons kv c by (simp add: no_schema_resolve_schema Schema_ensure_None)
qed

lemma MetaList_fill_ok:
  "no_schema S \<Longrightarrow> list_all is_node data \<Longrightarrow> \<exists>r. MetaList_fill S data self = Inr r"
proof (induction data arbitrary: self)
  case Nil
  then show ?case by simp
next
  case (Cons item data)
  have "validate_recursive_at S PNone item = Inr PNone"
    using Cons.prems(1) by (auto simp: no_schema_def validate_recursive_at_def resolve_schema_key_def)
  then show ?case using Cons by (simp add: Schema_ensure_None)
qed

lemma node_set_nodes:
  "list_all is_node acc \<Longrightarrow> list_all is_node xs \<Longrightarrow> list_all is_node (foldl node_set_add acc xs)"
  by (induction xs arbitrary: acc) (auto simp: node_set_add_def)

lemma no_schema_is_Schema: "no_schema S \<Longrightarrow> is_Schema S"
  by (auto simp: no_schema_def is_Schema_def)

lemma wrap_plain:
  "plain_data x \<Longrightarrow> no_schema S \<Longrightarrow> \<exists>n. wrap_meta_structure x S = Inr n \<and> is_node n"
proof (induction x arbitrary: S)
  case (PList xs)
  have "\<And>x. x \<in> set xs \<Longrightarrow>
      \<exists>n. wrap_meta_structure x (PSchema PAny False NoOpValidator_cls) = Inr n \<and> is_node n \<and> (False \<longrightarrow> py_hashable n)"
    using PList by (auto simp: list_all_iff no_schema_def simp del: wrap_meta_structure.simps)
  then obtain ns where ns: "wrap_each xs (PSchema PAny False NoOpValidator_cls) = Inr ns" "list_all is_node ns"
    using wrap_each_nodes [of xs "PSchema PAny False NoOpValidator_cls" False] by blast
  obtain r where r: "MetaList_fill S ns [] = Inr r"
    using MetaList_fill_ok [OF PList.prems(2) ns(2)] by blast
  show ?case
    using PList.prems(2) ns r
    by (subst wrap_meta_structure.simps)
       (simp add: no_schema_is_Schema no_schema_resolve_from MetaList_new_def
          no_schema_validate_node is_node_def del: wrap_meta_structure.simps)
next
  case (PTuple xs)
  have "\<And>x. x \<in> set xs \<Longrightarrow>
      \<exists>n. wrap_meta_structure x (PSchema PAny False NoOpValidator_cls) = Inr n \<and> is_node n \<and> (False \<longrightarrow> py_hashable n)"
    using PTuple by (auto simp: list_all_iff no_schema_def simp del: wrap_meta_structure.simps)
  then obtain ns where ns: "wrap_each xs (PSchema PAny False NoOpValidator_cls) = Inr ns" "list_all is_node ns"
    using wrap_each_nodes [of xs "PSchema PAny False NoOpValidator_cls" False] by blast
  show ?case
    using PTuple.prems(2) ns
    by (subst wrap_meta_structure.simps)
       (auto simp: no_schema_is_Schema no_schema_resolve_from MetaTuple_new_def get_args_def
          no_schema_validate_node is_node_def no_schema_def simp del: wrap_meta_structure.simps)
next
  case (PSet xs)
  have "\<And>x. x \<in> set xs \<Longrightarrow>
      \<exists>n. wrap_meta_structure x (PSchema PAny False NoOpValidator_cls) = Inr n \<and> is_node n \<and> (True \<longrightarrow> py_hashable n)"
    using PSet.prems wrap_scalar [of "PSchema PAny False NoOpValidator_cls"]
    by (auto simp: list_all_iff no_schema_def simp del: wrap_meta_structure.simps)
  then obtain ns where ns: "wrap_each xs (PSchema PAny False NoOpValidator_cls) = Inr ns"
      "list_all is_node ns" "list_all py_hashable ns"
    using wrap_each_nodes [of xs "PSchema PAny False NoOpValidator_cls" True] by blast
  have m: "list_all is_node (foldl node_set_add [] ns)"
    using ns(2) by (simp add: node_set_nodes)
  then have m': "\<not> list_ex (\<lambda>item. \<not> is_node item) (foldl node_set_add [] ns)"
    by (simp add: list_all_iff list_ex_iff)
  show ?case
    using PSet.prems(2) ns m'
    by (subst wrap_meta_structure.simps)
       (auto simp: no_schema_is_Schema no_schema_resolve_from MetaSet_new_def node_set_of_def
          get_origin_def no_schema_validate_node is_node_def no_schema_def
          simp del: wrap_meta_structure.simps)
next
  case (PDict kvs)
  have "\<And>v. v \<in> snd ` set kvs \<Longrightarrow>
      \<exists>n. wrap_meta_structure v (PSchema PAny False NoOpValidator_cls) = Inr n \<and> is_node n"
    using PDict by (fastforce simp: list_all_iff no_schema_def simp del: wrap_meta_structure.simps)
  then obtain w where w: "wrap_items kvs S [] = Inr w" "list_all is_node (map snd w)"
    using wrap_items_nodes [OF PDict.prems(2), of kvs "[]"] by auto
  obtain r where r: "MetaDict_fill S w [] = Inr r"
    using MetaDict_fill_ok [OF PDict.prems(2) w(2)] by blast
  have c: "coerce_dict_keys (PDict kvs) (case S of PSchema s v c \<Rightarrow> s | _ \<Rightarrow> PNone) = Inr (PDict kvs)"
    using PDict.prems(2) by (auto simp: no_schema_def)
  show ?case
    using PDict.prems(2) w r c
    by (subst wrap_meta_structure.simps)
       (simp add: no_schema_is_Schema MetaDict_new_def no_schema_validate_node is_node_def
          del: wrap_meta_structure.simps)
next
  case PNone
  then show ?case
    by (subst wrap_meta_structure.simps)
       (auto simp: no_schema_def MetaNone_new_def is_Schema_def validate_node_def
          build_validator_def is_node_def simp del: wrap_meta_structure.simps)
next
  case (PBool b)
  then show ?case using wrap_scalar [of S "PBool b"] by (auto simp: is_scalar_def)
next
  case (PInt i)
  then show ?case using wrap_scalar [of S "PInt i"] by (auto simp: is_scalar_def)
next
  case (PFloat r)
  then show ?case using wrap_scalar [of S "PFloat r"] by (auto simp: is_scalar_def)
next
  case (PStr s)
  then show ?case using wrap_scalar [of S "PStr s"] by (auto simp: is_scalar_def)
qed simp_all

lemma wrap_raw_empty_schema:
  "\<not> is_node x \<Longrightarrow>
   wrap_meta_structure x (PDict []) = wrap_meta_structure x (PSchema PNone False NoOpValidator_cls)"
  by (subst (1 2) wrap_meta_structure.simps)
     (cases x; simp add: is_node_def is_Schema_def Schema_init_def del: wrap_meta_structure.simps)

lemma plain_data_not_node: "plain_data x \<Longrightarrow> \<not> is_node x"
  by (cases x) (simp_all add: is_node_def)

text \<open>Every falsy schema expression (\<^verbatim>\<open>None\<close>, \<^verbatim>\<open>{}\<close>, \<open>0\<close>, \<^verbatim>\<open>False\<close>, ...)
  gives a \<^verbatim>\<open>Schema\<close> with no schema, \<^verbatim>\<open>_validate\<close> false and the no-op validator
  class, when no \<^verbatim>\<open>validate\<close> keyword is passed, and its \<^verbatim>\<open>build_validator\<close> returns
  a \<^verbatim>\<open>NoOpValidator\<close>. \<^verbatim>\<open>wrap_meta_structure\<close> against \<^verbatim>\<open>{}\<close> then returns a node
  for every raw value built from \<^verbatim>\<open>None\<close>, booleans, numbers, strings, lists, tuples,
  dicts with any keys, and sets of booleans, numbers and strings: no key and no value is
  refused. (The node returned for a tuple holds no members.)\<close>

lemma falsy_schema_validates_nothing:
  "(\<not> py_truthy raw \<longrightarrow>
      Schema_init raw None vc = Inr (PSchema PNone False NoOpValidator_cls))
   \<and> build_validator (PSchema PNone False NoOpValidator_cls) = Inr NoOpValidator
   \<and> (plain_data x \<longrightarrow> (\<exists>n. wrap_meta_structure x (PDict []) = Inr n \<and> is_node n))"
proof (intro conjI impI)
  assume "\<not> py_truthy raw"
  then show "Schema_init raw None vc = Inr (PSchema PNone False NoOpValidator_cls)"
    by (rule falsy_Schema_init)
next
  show "build_validator (PSchema PNone False NoOpValidator_cls) = Inr NoOpValidator"
    by (simp add: build_validator_def)
next
  assume p: "plain_data x"
  have "no_schema (PSchema PNone False NoOpValidator_cls)" by (simp add: no_schema_def)
  with p have "\<exists>n. wrap_meta_structure x (PSchema PNone False NoOpValidator_cls) = Inr n \<and> is_node n"
    by (rule wrap_plain)
  then show "\<exists>n. wrap_meta_structure x (PDict []) = Inr n \<and> is_node n"
    using wrap_raw_empty_schema [OF plain_data_not_node [OF p]] by simp
qed

text \<open>
  \<^bold>\<open>C10\<close> (a falsy schema expression gives no schema and a no-op validator, so wrapping
  any value against \<^verbatim>\<open>{}\<close> succeeds). The first half holds: \<^verbatim>\<open>Schema({})\<close> has no
  schema and the no-op validator class. But wrapping the set \<^verbatim>\<open>{None}\<close> against
  \<^verbatim>\<open>{}\<close> raises \<^verbatim>\<open>TypeError\<close>. No validation is involved: the member is wrapped to
  a \<^verbatim>\<open>MetaNone\<close>, \<^verbatim>\<open>MetaSet.__new__\<close> builds \<^verbatim>\<open>set(container_data)\<close>, which hashes
  it, and \<^verbatim>\<open>MetaNone.__hash__\<close> is \<^verbatim>\<open>return None\<close>, which Python refuses as a hash
  value.
\<close>

theorem wrap_set_of_None_fails:
  "Schema_init (PDict []) None SchemaValidator_cls = Inr (PSchema PNone False NoOpValidator_cls)
   \<and> wrap_meta_structure (PSet [PNone]) (PDict []) = Inl (TypeError BadHash)"
  by code_simp

end
